theory Spec2Isabelle
  imports Complex_Main "HOL-Library.Sublist" "HOL-Library.Log_Nat"
begin

section \<open>Data model\<close>

text \<open>
  The rules engine lives in \<^verbatim>\<open>utils/pointsCalculator\<close>. Its functions read plain
  JavaScript objects. A container that the source guards with \<^verbatim>\<open>?.\<close>, \<^verbatim>\<open>!x\<close> or a
  default parameter may be \<^verbatim>\<open>undefined\<close> (absent) or \<^verbatim>\<open>null\<close>; the three cases are kept
  apart because a default parameter replaces \<^verbatim>\<open>undefined\<close> only.
\<close>

datatype 'a nullable = Undefined | Null | Defined 'a

datatype js_error = TypeError | ReferenceError

text \<open>
  A session as the points engine reads it: \<^verbatim>\<open>attendees\<close> (an array of user ids, possibly
  missing) and \<^verbatim>\<open>status\<close>; \<^verbatim>\<open>maxSeats\<close> and \<^verbatim>\<open>creatorId\<close> are read by the join action,
  \<^verbatim>\<open>title\<close>, \<^verbatim>\<open>creatorId\<close> and \<^verbatim>\<open>creatorName\<close> by the session detail page.
\<close>

record session =
  title :: string
  status :: string
  attendees :: "string list nullable"
  maxSeats :: "nat option"
  creatorId :: string
  creatorName :: string

text \<open>
  A feedback entry. The form produces \<^verbatim>\<open>rating\<close> as one of the integers 1..5 and
  \<^verbatim>\<open>behavior\<close> as a string.
\<close>

record feedback =
  rating :: int
  behavior :: string

section \<open>Points engine\<close>

text \<open>
  \<^verbatim>\<open>calculateSessionPoints\<close>: \<^verbatim>\<open>sessionData.attendees?.length || 0\<close> is the length of the
  array, and 0 when the field is absent or null; then the chain of \<^verbatim>\<open>else if\<close> in the
  order of the source, then the completion point.
\<close>

definition attendeeCount :: "session \<Rightarrow> nat" where
  "attendeeCount sessionData =
     (case attendees sessionData of
        Undefined \<Rightarrow> 0
      | Null \<Rightarrow> 0
      | Defined xs \<Rightarrow> length xs)"

definition calculateSessionPoints :: "session \<Rightarrow> int" where
  "calculateSessionPoints sessionData =
     (let n = attendeeCount sessionData;
          points =
            (if n = 1 then 2
             else if n = 2 then 3
             else if n = 3 then 4
             else if n = 4 then 5
             else if n = 5 then 6
             else if n = 6 then 7
             else if n = 7 then 8
             else if n \<ge> 8 then 10
             else 0)
      in if status sessionData = ''completed'' then points + 1 else points)"

text \<open>
  The step table as the specification words it: 1 gives 2, 2 gives 3, 3 gives 4, 4 gives 5,
  5 gives 6, 6 gives 7, 7 gives 8, 8 or more gives 10, 0 gives 0.
\<close>

definition spec_step_table :: "nat \<Rightarrow> int" where
  "spec_step_table n = (if n \<ge> 8 then 10 else [0, 2, 3, 4, 5, 6, 7, 8] ! n)"

text \<open>
  JavaScript numbers are modelled by exact rationals. The ratings are small integers, so
  their sum is exact in the source too; the quotient by the length is taken exactly here.
  \<^verbatim>\<open>feedbacks.reduce((sum, f) => sum + f.rating, 0) / feedbacks.length\<close>:
\<close>

definition meanRating :: "feedback list \<Rightarrow> rat" where
  "meanRating feedbacks =
     of_int (foldl (\<lambda>sum f. sum + rating f) 0 feedbacks) / of_nat (length feedbacks)"

definition countBehavior :: "string \<Rightarrow> feedback list \<Rightarrow> nat" where
  "countBehavior b feedbacks = length (filter (\<lambda>f. behavior f = b) feedbacks)"

text \<open>
  \<^verbatim>\<open>calculateBonusPoints\<close>: \<^verbatim>\<open>!feedbacks || feedbacks.length === 0\<close> returns 0 early;
  otherwise 3 for a mean of at least 4.5, plus the number of entries whose behavior is
  \<^verbatim>\<open>'Good'\<close>.
\<close>

definition calculateBonusPoints :: "feedback list nullable \<Rightarrow> int" where
  "calculateBonusPoints fb =
     (case fb of
        Undefined \<Rightarrow> 0
      | Null \<Rightarrow> 0
      | Defined feedbacks \<Rightarrow>
          if length feedbacks = 0 then 0
          else
            (let averageRating = meanRating feedbacks;
                 bonusPoints = (if averageRating \<ge> 9 / 2 then 3 else 0);
                 goodBehaviors = countBehavior ''Good'' feedbacks
             in bonusPoints + int goodBehaviors))"

definition calculateTotalPoints :: "session \<Rightarrow> feedback list nullable \<Rightarrow> int" where
  "calculateTotalPoints sessionData feedbacks =
     calculateSessionPoints sessionData + calculateBonusPoints feedbacks"

section \<open>Feedback aggregator\<close>

text \<open>
  \<^verbatim>\<open>parseFloat(x.toFixed(2))\<close> in exact arithmetic. \<^verbatim>\<open>toFixed(2)\<close> takes the integer \<open>n\<close>
  for which \<open>n / 100 - x\<close> is as close to zero as possible, the larger \<open>n\<close> when there are
  two; a negative \<open>x\<close> is negated first and the sign put back. This is the rounding of the
  exact quotient; it is used where only the comparison of the rounded average with 4.5 is
  read (the eligibility check), which it decides as the double arithmetic of the source
  does on every array of ratings 1..5 (lemma \<open>average_comparison_agrees\<close> below). The
  value of the rounded average itself is modelled in double arithmetic further down.
\<close>

definition toFixed2 :: "rat \<Rightarrow> rat" where
  "toFixed2 x =
     (if x < 0 then - (of_int \<lfloor>- x * 100 + 1 / 2\<rfloor> / 100)
      else of_int \<lfloor>x * 100 + 1 / 2\<rfloor> / 100)"

record aggregate =
  averageRating :: rat
  totalFeedback :: nat
  goodCount :: nat
  neutralCount :: nat
  badCount :: nat

definition zeroAggregate :: aggregate where
  "zeroAggregate =
     \<lparr>averageRating = 0, totalFeedback = 0, goodCount = 0, neutralCount = 0, badCount = 0\<rparr>"

text \<open>
  \<^verbatim>\<open>calculateAverageFeedback\<close> as a function of the list, in exact arithmetic: the counts
  and the length are those of the source on every list; the rounded average is that of
  the source up to the rounding of doubles, which shows only where the mean is a tie
  between two hundredths. The eligibility check is stated over this function;
  \<open>calculateAverageFeedbackJS\<close> below gives the value the source computes.
\<close>

definition calculateAverageFeedback :: "feedback list nullable \<Rightarrow> aggregate" where
  "calculateAverageFeedback fb =
     (case fb of
        Undefined \<Rightarrow> zeroAggregate
      | Null \<Rightarrow> zeroAggregate
      | Defined feedbacks \<Rightarrow>
          if length feedbacks = 0 then zeroAggregate
          else
            \<lparr>averageRating = toFixed2 (meanRating feedbacks),
             totalFeedback = length feedbacks,
             goodCount = countBehavior ''Good'' feedbacks,
             neutralCount = countBehavior ''Neutral'' feedbacks,
             badCount = countBehavior ''Bad'' feedbacks\<rparr>)"

subsection \<open>The aggregate in the arithmetic of the source\<close>

text \<open>
  A JavaScript number is an IEEE 754 binary64 value; a finite one is modelled by the
  rational it denotes. The operations below round to the nearest value with a 53-bit
  significand, ties to even, as the division of two numbers and the reading of a decimal
  string do. The exponent range of binary64 is not modelled: the quotient of an integer
  below \<open>2^53\<close> by an array length, and a number with two decimals below \<open>10^21\<close>, lie
  well inside it.
\<close>

definition roundHalfEven :: "rat \<Rightarrow> int" where
  "roundHalfEven q =
     (let f = \<lfloor>q\<rfloor>; r = q - of_int f
      in if r < 1 / 2 then f else if r > 1 / 2 then f + 1 else if even f then f else f + 1)"

text \<open>
  For positive integers \<open>a\<close> and \<open>b\<close>, the exponent \<open>e\<close> with \<open>2^e \<le> a / b < 2^(e + 1)\<close>:
  the difference of the bit lengths, or one less.
\<close>

definition binaryExponent :: "int \<Rightarrow> int \<Rightarrow> int" where
  "binaryExponent a b =
     (let d = bitlen a - bitlen b
      in if 2 powi d \<le> (of_int a / of_int b :: rat) then d else d - 1)"

text \<open>
  The double nearest to \<open>a / b\<close>, for an integer \<open>a\<close> and a positive integer \<open>b\<close>: the
  quotient is scaled to a significand in \<open>[2^52, 2^53)\<close>, the significand rounded to an
  integer, and the scale put back. It models \<^verbatim>\<open>a / b\<close> for numbers \<open>a\<close> and \<open>b\<close> that are
  integers, and \<^verbatim>\<open>parseFloat\<close> of the decimal string of \<open>a / 100\<close>.
\<close>

definition nearestDouble :: "int \<Rightarrow> int \<Rightarrow> rat" where
  "nearestDouble a b =
     (if a = 0 then 0
      else
        (let e = binaryExponent \<bar>a\<bar> b;
             u = 2 powi (e - 52);
             m = roundHalfEven (of_int \<bar>a\<bar> / of_int b / u)
         in of_int (sgn a) * (of_int m * u)))"

text \<open>
  \<^verbatim>\<open>parseFloat(d.toFixed(2))\<close> for a double \<open>d\<close>. \<^verbatim>\<open>toFixed(2)\<close> works on the exact value
  of the double: it takes the integer \<open>n\<close> for which \<open>n / 100 - |d|\<close> is as close to zero
  as possible, the larger \<open>n\<close> when there are two, and prints \<open>n\<close> with two decimals and
  the sign of \<open>d\<close>; \<^verbatim>\<open>parseFloat\<close> reads that string as the nearest double. From \<open>10^21\<close>
  on \<^verbatim>\<open>toFixed\<close> prints the number as \<^verbatim>\<open>String\<close> does, and \<^verbatim>\<open>parseFloat\<close> reads it back
  unchanged.
\<close>

definition parseFixed2 :: "rat \<Rightarrow> rat" where
  "parseFixed2 d =
     (if \<bar>d\<bar> \<ge> 10 ^ 21 then d
      else sgn d * nearestDouble \<lfloor>\<bar>d\<bar> * 100 + 1 / 2\<rfloor> 100)"

text \<open>
  Arrays live in a heap: a list of arrays, an array being referred to by its index.
  \<^verbatim>\<open>length\<close> and \<^verbatim>\<open>reduce\<close> (with a callback that only reads) read the array;
  \<^verbatim>\<open>filter\<close> allocates a new array for its result and leaves its argument in place.
\<close>

type_synonym heap = "feedback list list"

definition arrayLength :: "heap \<Rightarrow> nat \<Rightarrow> nat" where
  "arrayLength h r = length (h ! r)"

definition arrayReduce :: "(int \<Rightarrow> feedback \<Rightarrow> int) \<Rightarrow> int \<Rightarrow> heap \<Rightarrow> nat \<Rightarrow> int" where
  "arrayReduce f z h r = foldl f z (h ! r)"

definition arrayFilter :: "(feedback \<Rightarrow> bool) \<Rightarrow> heap \<Rightarrow> nat \<Rightarrow> heap \<times> nat" where
  "arrayFilter p h r = (h @ [filter p (h ! r)], length h)"

text \<open>
  \<^verbatim>\<open>calculateAverageFeedback\<close> as the source runs it: on the heap, with the quotient, the
  rounding to two decimals and the reading of the result in double arithmetic. The sum
  of the ratings is an integer, exact in the source as long as it stays below \<open>2^53\<close>.
  The argument is a reference to an array of the heap, or missing.
\<close>

definition calculateAverageFeedbackJS :: "heap \<Rightarrow> nat nullable \<Rightarrow> heap \<times> aggregate" where
  "calculateAverageFeedbackJS h fb =
     (case fb of
        Undefined \<Rightarrow> (h, zeroAggregate)
      | Null \<Rightarrow> (h, zeroAggregate)
      | Defined r \<Rightarrow>
          if arrayLength h r = 0 then (h, zeroAggregate)
          else
            (let average =
                   nearestDouble (arrayReduce (\<lambda>sum f. sum + rating f) 0 h r)
                     (int (arrayLength h r));
                 (h1, good) = arrayFilter (\<lambda>f. behavior f = ''Good'') h r;
                 (h2, neutral) = arrayFilter (\<lambda>f. behavior f = ''Neutral'') h1 r;
                 (h3, bad) = arrayFilter (\<lambda>f. behavior f = ''Bad'') h2 r
             in (h3,
                 \<lparr>averageRating = parseFixed2 average,
                  totalFeedback = arrayLength h3 r,
                  goodCount = arrayLength h3 good,
                  neutralCount = arrayLength h3 neutral,
                  badCount = arrayLength h3 bad\<rparr>)))"

section \<open>Eligibility engine\<close>

text \<open>
  The threshold table of \<^verbatim>\<open>shouldAwardBadge\<close>. Each name starts with an emoji; the
  strings are given by the UTF-8 bytes of the source file (a star, a graduation cap, a
  flame and a trophy, each followed by a space).
\<close>

record badge =
  name :: string
  points :: int

definition badgeThresholds :: "badge list" where
  "badgeThresholds =
     [\<lparr>name = [CHR 0xE2, CHR 0xAD, CHR 0x90] @ '' Beginner Helper'', points = 5\<rparr>,
      \<lparr>name = [CHR 0xF0, CHR 0x9F, CHR 0x8E, CHR 0x93] @ '' Peer Mentor'', points = 20\<rparr>,
      \<lparr>name = [CHR 0xF0, CHR 0x9F, CHR 0x94, CHR 0xA5] @ '' Super Helper'', points = 50\<rparr>,
      \<lparr>name = [CHR 0xF0, CHR 0x9F, CHR 0x8F, CHR 0x86] @ '' Champion Mentor'', points = 100\<rparr>]"

text \<open>
  An element of \<^verbatim>\<open>userBadges\<close> is a JavaScript value: an object, whose properties are
  a finite map, or a primitive string. \<^verbatim>\<open>b.name\<close> reads the property \<^verbatim>\<open>name\<close>; it is
  \<^verbatim>\<open>undefined\<close> (here \<open>None\<close>) for an object without that property and for every
  string.
\<close>

datatype js_value = Str string | Obj "string \<rightharpoonup> string"

fun nameOf :: "js_value \<Rightarrow> string option" where
  "nameOf (Str s) = None"
| "nameOf (Obj props) = props ''name''"

text \<open>
  The \<^verbatim>\<open>for ... of\<close> loop over the table, with the array \<^verbatim>\<open>awardedBadges\<close> as
  accumulator. \<^verbatim>\<open>&&\<close> evaluates \<^verbatim>\<open>userBadges.some\<close> only when the points reach the
  threshold; on \<^verbatim>\<open>null\<close> (here \<open>None\<close>) that call throws a TypeError.
\<close>

fun awardLoop ::
  "int \<Rightarrow> js_value list option \<Rightarrow> badge list \<Rightarrow> string list \<Rightarrow> js_error + string list"
where
  "awardLoop userPoints userBadges [] awardedBadges = Inr awardedBadges"
| "awardLoop userPoints userBadges (badge # rest) awardedBadges =
     (if userPoints \<ge> points badge then
        (case userBadges of
           None \<Rightarrow> Inl TypeError
         | Some held \<Rightarrow>
             if \<not> list_ex (\<lambda>b. nameOf b = Some (name badge)) held
             then awardLoop userPoints userBadges rest (awardedBadges @ [name badge])
             else awardLoop userPoints userBadges rest awardedBadges)
      else awardLoop userPoints userBadges rest awardedBadges)"

text \<open>
  \<^verbatim>\<open>shouldAwardBadge = (userPoints, userBadges = []) => ...\<close>: the default replaces an
  omitted or \<^verbatim>\<open>undefined\<close> argument, not \<^verbatim>\<open>null\<close>.
\<close>

definition shouldAwardBadge :: "int \<Rightarrow> js_value list nullable \<Rightarrow> js_error + string list" where
  "shouldAwardBadge userPoints userBadges =
     awardLoop userPoints
       (case userBadges of Undefined \<Rightarrow> Some [] | Null \<Rightarrow> None | Defined held \<Rightarrow> Some held)
       badgeThresholds []"

record eligibility =
  peerMentor :: bool
  outstandingHelper :: bool

text \<open>
  \<^verbatim>\<open>checkCertificateEligibility\<close>. \<^verbatim>\<open>sessionData.attendees?.length > 0\<close> is false when
  the field is absent or null. The rating compared with 4.5 is the field
  \<^verbatim>\<open>averageRating\<close> of \<^verbatim>\<open>calculateAverageFeedback\<close>, that is the rounded mean.
\<close>

definition checkCertificateEligibility :: "session \<Rightarrow> feedback list nullable \<Rightarrow> eligibility" where
  "checkCertificateEligibility sessionData feedbacks =
     (let feedback = calculateAverageFeedback feedbacks
      in \<lparr>peerMentor =
             (status sessionData = ''completed'' \<and>
              (case attendees sessionData of
                 Undefined \<Rightarrow> False
               | Null \<Rightarrow> False
               | Defined xs \<Rightarrow> length xs > 0)),
          outstandingHelper =
             (averageRating feedback \<ge> 9 / 2 \<and> goodCount feedback > badCount feedback)\<rparr>)"

section \<open>Session state machine: the join action\<close>




section \<open>Session completion on the detail page\<close>

text \<open>
  The state of \<^verbatim>\<open>SessionDetailPage\<close> that \<^verbatim>\<open>handleCompleteSession\<close> reads: the route
  parameter \<^verbatim>\<open>sessionId\<close> and the React state \<^verbatim>\<open>session\<close>, \<^verbatim>\<open>attendees\<close>, \<^verbatim>\<open>feedbacks\<close>.
\<close>

record page_state =
  sessionId :: string
  session :: session
  pageAttendees :: "string list"
  feedbacks :: "feedback list"

text \<open>
  What the handler does to the outside, in order: the calls to the storage collaborators
  and the alerts. \<^verbatim>\<open>CreateCertificate\<close> carries \<^verbatim>\<open>userId\<close>, \<^verbatim>\<open>studentName\<close>, \<^verbatim>\<open>sessionId\<close>,
  \<^verbatim>\<open>sessionTitle\<close>, \<^verbatim>\<open>certificateType\<close>, \<^verbatim>\<open>averageRating\<close>, \<^verbatim>\<open>totalAttendees\<close>;
  \<^verbatim>\<open>AddBadge\<close> carries \<^verbatim>\<open>userId\<close> and \<^verbatim>\<open>badgeType\<close>. The identifiers built from
  \<^verbatim>\<open>Date.now()\<close> are left out. The collaborators are taken to succeed.
\<close>

datatype effect =
    CompleteSession string
  | AddPoints string int
  | CreateCertificate string string string string string rat nat
  | AddBadge string string
  | HideCompleteForm
  | LoadSessionData
  | Alert string

text \<open>
  A \<^verbatim>\<open>const\<close> binding is in scope in its whole block but is uninitialised (\<open>None\<close>)
  until its declaration has run; reading it before that throws a ReferenceError.
\<close>

definition readBinding :: "'a option \<Rightarrow> js_error + 'a" where
  "readBinding b = (case b of None \<Rightarrow> Inl ReferenceError | Some v \<Rightarrow> Inr v)"

text \<open>
  The statement \<^verbatim>\<open>if (eligibility.peerMentor) { await certificateDB.createCertificate({...}) }\<close>.
  The object literal reads \<^verbatim>\<open>avgRating\<close> for \<^verbatim>\<open>certificateType\<close> before the call is made.
\<close>

definition certificateStep :: "page_state \<Rightarrow> eligibility \<Rightarrow> rat option \<Rightarrow> js_error + effect list" where
  "certificateStep st elig avgRating =
     (if peerMentor elig then
        (case readBinding avgRating of
           Inl e \<Rightarrow> Inl e
         | Inr r \<Rightarrow>
             Inr [CreateCertificate (creatorId (session st)) (creatorName (session st))
                    (sessionId st) (title (session st))
                    (if r \<ge> 9 / 2 then ''outstanding-helper'' else ''peer-mentor'')
                    r (length (pageAttendees st))])
      else Inr [])"

text \<open>The badge awards that follow the declaration of \<^verbatim>\<open>avgRating\<close>.\<close>

definition badgeStep :: "page_state \<Rightarrow> rat \<Rightarrow> effect list" where
  "badgeStep st avgRating =
     (if avgRating \<ge> 9 / 2 then [AddBadge (creatorId (session st)) ''excellent-teacher'']
      else if avgRating \<ge> 4 then [AddBadge (creatorId (session st)) ''peer-mentor'']
      else [])"

text \<open>
  The body of the \<^verbatim>\<open>try\<close> block, statement by statement: the effects performed and the
  exception that ended it, if any. \<^verbatim>\<open>sessionData\<close> is what \<^verbatim>\<open>sessionDB.getSession\<close>
  answers after the status update. The declaration \<^verbatim>\<open>const avgRating = ...\<close> stands
  after the certificate statement, so that statement runs with the binding uninitialised.
\<close>

definition tryBlock :: "page_state \<Rightarrow> session \<Rightarrow> feedback \<Rightarrow> effect list \<times> js_error option" where
  "tryBlock st sessionData createdFeedback =
     (let es1 = [CompleteSession (sessionId st)];
          allFeedbacks = feedbacks st @ [createdFeedback];
          basePoints = calculateSessionPoints sessionData;
          bonusPoints = calculateBonusPoints (Defined allFeedbacks);
          totalPoints = basePoints + bonusPoints;
          es2 = es1 @ [AddPoints (creatorId (session st)) totalPoints];
          elig = checkCertificateEligibility sessionData (Defined allFeedbacks)
      in case certificateStep st elig None of
           Inl e \<Rightarrow> (es2, Some e)
         | Inr certs \<Rightarrow>
             (let avgRating = (if length allFeedbacks > 0 then meanRating allFeedbacks else 0)
              in (es2 @ certs @ badgeStep st avgRating
                    @ [HideCompleteForm, LoadSessionData,
                       Alert ''Session completed! Points and certificates awarded.''],
                  None)))"

text \<open>\<^verbatim>\<open>handleCompleteSession\<close>: the \<^verbatim>\<open>catch\<close> clause alerts the failure.\<close>

definition handleCompleteSession :: "page_state \<Rightarrow> session \<Rightarrow> feedback \<Rightarrow> effect list" where
  "handleCompleteSession st sessionData createdFeedback =
     (case tryBlock st sessionData createdFeedback of
        (es, None) \<Rightarrow> es
      | (es, Some e) \<Rightarrow> es @ [Alert ''Failed to complete session''])"

text \<open>The certificates a run of the handler issues, by their type.\<close>

fun certificatesIssued :: "effect list \<Rightarrow> string list" where
  "certificatesIssued [] = []"
| "certificatesIssued (CreateCertificate u n sid t ty r k # es) = ty # certificatesIssued es"
| "certificatesIssued (e # es) = certificatesIssued es"

section \<open>Base points\<close>

lemma spec_step_table_cases:
  "spec_step_table n =
     (if n = 0 then 0 else if n = 1 then 2 else if n = 2 then 3 else if n = 3 then 4
      else if n = 4 then 5 else if n = 5 then 6 else if n = 6 then 7
      else if n = 7 then 8 else 10)"
proof -
  consider "n = 0" | "n = 1" | "n = 2" | "n = 3" | "n = 4" | "n = 5" | "n = 6" | "n = 7"
    | "n \<ge> 8"
    by linarith
  then show ?thesis
    by cases (simp_all add: spec_step_table_def)
qed

lemma spec_step_table_mono: "m \<le> n \<Longrightarrow> spec_step_table m \<le> spec_step_table n"
  unfolding spec_step_table_cases by (simp split: if_splits)

lemma calculateSessionPoints_table:
  "calculateSessionPoints s =
     spec_step_table (attendeeCount s) + (if status s = ''completed'' then 1 else 0)"
  unfolding spec_step_table_cases calculateSessionPoints_def Let_def by simp

text \<open>
  Claim C1. For every session, \<^verbatim>\<open>calculateSessionPoints\<close> is the value of the fixed step
  table (1 gives 2, 2 gives 3, 3 gives 4, 4 gives 5, 5 gives 6, 6 gives 7, 7 gives 8, 8 or
  more gives 10, 0 gives 0) at the number of attendees, plus one exactly when the status is
  \<^verbatim>\<open>'completed'\<close>. The number of attendees is the length of the list in the field
  \<^verbatim>\<open>attendees\<close>; a session without that list counts as one with no attendees.
\<close>

theorem C1_calculateSessionPoints_step_table:
  "calculateSessionPoints s =
     (case attendees s of
        Defined xs \<Rightarrow>
          (if length xs = 0 then 0 else if length xs = 1 then 2
           else if length xs = 2 then 3 else if length xs = 3 then 4
           else if length xs = 4 then 5 else if length xs = 5 then 6
           else if length xs = 6 then 7 else if length xs = 7 then 8 else 10)
      | Undefined \<Rightarrow> 0
      | Null \<Rightarrow> 0)
     + (if status s = ''completed'' then 1 else 0)
   \<and> calculateSessionPoints s =
       spec_step_table (case attendees s of Defined xs \<Rightarrow> length xs | Undefined \<Rightarrow> 0 | Null \<Rightarrow> 0)
       + (if status s = ''completed'' then 1 else 0)"
proof (cases "attendees s")
  case (Defined xs)
  then have "attendeeCount s = length xs"
    by (simp add: attendeeCount_def)
  with Defined show ?thesis
    using calculateSessionPoints_table [of s] spec_step_table_cases [of "length xs"]
    by simp
next
  case Undefined
  then have "attendeeCount s = 0"
    by (simp add: attendeeCount_def)
  with Undefined show ?thesis
    using calculateSessionPoints_table [of s] by (simp add: spec_step_table_def)
next
  case Null
  then have "attendeeCount s = 0"
    by (simp add: attendeeCount_def)
  with Null show ?thesis
    using calculateSessionPoints_table [of s] by (simp add: spec_step_table_def)
qed

text \<open>
  A completed session with five attendees earns 7 points: 6 from the table and 1. One
  attendee on a scheduled session earns 2, eight attendees earn 10.
\<close>

theorem C1_five_attendees_completed:
  "calculateSessionPoints
     \<lparr>title = ''t'', status = ''completed'',
      attendees = Defined [''u1'', ''u2'', ''u3'', ''u4'', ''u5''],
      maxSeats = None, creatorId = ''c'', creatorName = ''n''\<rparr> = 7
   \<and> calculateSessionPoints
     \<lparr>title = ''t'', status = ''scheduled'', attendees = Defined [''u1''],
      maxSeats = None, creatorId = ''c'', creatorName = ''n''\<rparr> = 2
   \<and> calculateSessionPoints
     \<lparr>title = ''t'', status = ''scheduled'',
      attendees = Defined [''u1'', ''u2'', ''u3'', ''u4'', ''u5'', ''u6'', ''u7'', ''u8''],
      maxSeats = None, creatorId = ''c'', creatorName = ''n''\<rparr> = 10"
  using C1_calculateSessionPoints_step_table
    [of "\<lparr>title = ''t'', status = ''completed'',
          attendees = Defined [''u1'', ''u2'', ''u3'', ''u4'', ''u5''],
          maxSeats = None, creatorId = ''c'', creatorName = ''n''\<rparr>"]
    C1_calculateSessionPoints_step_table
    [of "\<lparr>title = ''t'', status = ''scheduled'', attendees = Defined [''u1''],
          maxSeats = None, creatorId = ''c'', creatorName = ''n''\<rparr>"]
    C1_calculateSessionPoints_step_table
    [of "\<lparr>title = ''t'', status = ''scheduled'',
          attendees = Defined [''u1'', ''u2'', ''u3'', ''u4'', ''u5'', ''u6'', ''u7'', ''u8''],
          maxSeats = None, creatorId = ''c'', creatorName = ''n''\<rparr>"]
  by simp

text \<open>
  Claim C9. For a fixed status, the points never decrease when the number of attendees
  grows: for counts \<open>m \<le> n\<close> the points for \<open>m\<close> attendees are at most those for \<open>n\<close>.
\<close>

theorem C9_calculateSessionPoints_mono:
  "attendeeCount s \<le> attendeeCount s' \<Longrightarrow> status s = status s' \<Longrightarrow>
   calculateSessionPoints s \<le> calculateSessionPoints s'"
  by (simp add: calculateSessionPoints_table spec_step_table_mono)

theorem C9_mono_witness:
  "attendeeCount
     \<lparr>title = ''t'', status = ''scheduled'', attendees = Defined [''u1''],
      maxSeats = None, creatorId = ''c'', creatorName = ''n''\<rparr>
   \<le> attendeeCount
     \<lparr>title = ''t'', status = ''scheduled'', attendees = Defined [''u1'', ''u2'', ''u3''],
      maxSeats = None, creatorId = ''c'', creatorName = ''n''\<rparr>
   \<and> calculateSessionPoints
     \<lparr>title = ''t'', status = ''scheduled'', attendees = Defined [''u1''],
      maxSeats = None, creatorId = ''c'', creatorName = ''n''\<rparr>
   \<le> calculateSessionPoints
     \<lparr>title = ''t'', status = ''scheduled'', attendees = Defined [''u1'', ''u2'', ''u3''],
      maxSeats = None, creatorId = ''c'', creatorName = ''n''\<rparr>"
  using C9_calculateSessionPoints_mono
    [of "\<lparr>title = ''t'', status = ''scheduled'', attendees = Defined [''u1''],
          maxSeats = None, creatorId = ''c'', creatorName = ''n''\<rparr>"
        "\<lparr>title = ''t'', status = ''scheduled'', attendees = Defined [''u1'', ''u2'', ''u3''],
          maxSeats = None, creatorId = ''c'', creatorName = ''n''\<rparr>"]
  by (simp add: attendeeCount_def)

section \<open>Bonus points\<close>

lemma foldl_rating_sum:
  "foldl (\<lambda>sum f. sum + rating f) a fs = a + sum_list (map rating fs)"
  by (induction fs arbitrary: a) simp_all

lemma meanRating_sum_list:
  "meanRating fs = of_int (sum_list (map rating fs)) / of_nat (length fs)"
  by (simp add: meanRating_def foldl_rating_sum)

text \<open>
  Claim C2. \<^verbatim>\<open>calculateBonusPoints\<close> is 0 on the empty list; on a non-empty list it is
  3 when the mean of the ratings is at least 4.5 (0 otherwise) plus the number of entries
  whose behavior is \<^verbatim>\<open>'Good'\<close>. The mean is stated with \<open>sum_list\<close>, not with the fold of
  the source.
\<close>

theorem C2_calculateBonusPoints:
  "calculateBonusPoints (Defined []) = 0 \<and>
   (fs \<noteq> [] \<longrightarrow>
      calculateBonusPoints (Defined fs) =
        (if (of_int (sum_list (map rating fs)) :: rat) / of_nat (length fs) \<ge> 9 / 2
         then 3 else 0)
        + int (length (filter (\<lambda>f. behavior f = ''Good'') fs)))"
  by (simp add: calculateBonusPoints_def meanRating_sum_list countBehavior_def Let_def)

text \<open>Ratings 5 and 4, both \<^verbatim>\<open>'Good'\<close>: the mean is 4.5, so 3 + 2 = 5.\<close>

theorem C2_two_good_witness:
  "[\<lparr>rating = 5, behavior = ''Good''\<rparr>, \<lparr>rating = 4, behavior = ''Good''\<rparr>] \<noteq> []
   \<and> calculateBonusPoints
        (Defined [\<lparr>rating = 5, behavior = ''Good''\<rparr>, \<lparr>rating = 4, behavior = ''Good''\<rparr>]) = 5"
  using C2_calculateBonusPoints
    [of "[\<lparr>rating = 5, behavior = ''Good''\<rparr>, \<lparr>rating = 4, behavior = ''Good''\<rparr>]"]
  by simp

section \<open>Aggregation\<close>

lemma toFixed2_ge_450: "toFixed2 x \<ge> 9 / 2 \<longleftrightarrow> x \<ge> 899 / 200"
proof (cases "x < 0")
  case True
  define n where "n = \<lfloor>- x * 100 + 1 / 2\<rfloor>"
  have "0 \<le> n" unfolding n_def using True by simp
  then have "(0::rat) \<le> of_int n" by simp
  then have "\<not> (9 / 2 \<le> - (rat_of_int n / 100))" by linarith
  moreover have "toFixed2 x = - (rat_of_int n / 100)"
    using True by (simp only: toFixed2_def n_def if_True)
  ultimately have "\<not> 9 / 2 \<le> toFixed2 x"
    by simp
  then show ?thesis using True by simp
next
  case False
  define n where "n = \<lfloor>x * 100 + 1 / 2\<rfloor>"
  have "toFixed2 x = of_int n / 100"
    using False by (simp only: toFixed2_def n_def if_False)
  then have "toFixed2 x \<ge> 9 / 2 \<longleftrightarrow> (450::int) \<le> n"
    by linarith
  also have "\<dots> \<longleftrightarrow> of_int 450 \<le> x * 100 + 1 / 2"
    unfolding n_def by (rule le_floor_iff)
  also have "\<dots> \<longleftrightarrow> x \<ge> 899 / 200"
    by (simp add: field_simps)
  finally show ?thesis .
qed

subsection \<open>Rounding to doubles\<close>

lemma roundHalfEven_close: "\<bar>of_int (roundHalfEven q) - q\<bar> \<le> 1 / 2"
proof -
  define f where "f = \<lfloor>q\<rfloor>"
  have "of_int f \<le> q" "q < of_int f + 1"
    unfolding f_def by linarith+
  then show ?thesis
    unfolding roundHalfEven_def Let_def f_def [symmetric]
    by (auto simp: abs_le_iff)
qed

lemma bitlen_rat_bounds:
  assumes "0 < a"
  shows "(2::rat) powi (bitlen a - 1) \<le> of_int a" "(of_int a :: rat) < 2 powi (bitlen a)"
proof -
  from bitlen_bounds [OF assms]
  have lo: "2 ^ nat (bitlen a - 1) \<le> a" and hi: "a < 2 ^ nat (bitlen a)"
    by simp_all
  have pos: "1 \<le> bitlen a"
    using assms bitlen_eq_zero_iff [of a] bitlen_nonneg [of a] by linarith
  from lo have "(of_int (2 ^ nat (bitlen a - 1)) :: rat) \<le> of_int a"
    by (simp only: of_int_le_iff)
  then show "(2::rat) powi (bitlen a - 1) \<le> of_int a"
    using pos by (simp add: power_int_def)
  from hi have "(of_int a :: rat) < of_int (2 ^ nat (bitlen a))"
    by (simp only: of_int_less_iff)
  then show "(of_int a :: rat) < 2 powi (bitlen a)"
    using pos by (simp add: power_int_def)
qed

lemma binaryExponent_lower:
  assumes "0 < a" "0 < b"
  shows "2 powi (binaryExponent a b) \<le> (of_int a / of_int b :: rat)"
proof (cases "2 powi (bitlen a - bitlen b) \<le> (of_int a / of_int b :: rat)")
  case True
  then show ?thesis by (simp add: binaryExponent_def)
next
  case False
  have bpos: "(0::rat) < of_int b" using assms by simp
  have "(2::rat) powi (bitlen a - bitlen b - 1) = 2 powi (bitlen a - 1) / 2 powi (bitlen b)"
    by (simp add: power_int_diff)
  also have "\<dots> \<le> of_int a / 2 powi (bitlen b)"
    using bitlen_rat_bounds(1) [OF assms(1)] by (simp add: divide_right_mono)
  also have "\<dots> \<le> of_int a / of_int b"
    using bitlen_rat_bounds(2) [OF assms(2)] assms bpos
    by (intro divide_left_mono) (simp_all add: less_imp_le)
  finally show ?thesis using False by (simp add: binaryExponent_def)
qed

lemma binaryExponent_upper:
  assumes "0 < a" "0 < b"
  shows "(of_int a / of_int b :: rat) < 2 powi (binaryExponent a b + 1)"
proof (cases "2 powi (bitlen a - bitlen b) \<le> (of_int a / of_int b :: rat)")
  case True
  have bpos: "(0::rat) < of_int b" using assms by simp
  have "(of_int a / of_int b :: rat) < 2 powi (bitlen a) / of_int b"
    using bitlen_rat_bounds(2) [OF assms(1)] bpos by (simp add: divide_strict_right_mono)
  also have "\<dots> \<le> 2 powi (bitlen a) / 2 powi (bitlen b - 1)"
    using bitlen_rat_bounds(1) [OF assms(2)] bpos
    by (intro divide_left_mono) (simp_all add: mult_pos_pos)
  also have "\<dots> = 2 powi (bitlen a - bitlen b + 1)"
    by (simp add: power_int_diff power_int_add)
  finally show ?thesis using True by (simp add: binaryExponent_def)
next
  case False
  then show ?thesis by (simp add: binaryExponent_def)
qed

lemma nearestDouble_error:
  assumes "0 < a" "0 < b"
  shows "\<bar>nearestDouble a b - of_int a / of_int b\<bar> \<le> (of_int a / of_int b) / 2 ^ 53"
proof -
  define x :: rat where "x = of_int a / of_int b"
  define e where "e = binaryExponent a b"
  define u :: rat where "u = 2 powi (e - 52)"
  define m where "m = roundHalfEven (x / u)"
  have upos: "0 < u" unfolding u_def by simp
  have nd: "nearestDouble a b = of_int m * u"
    using assms unfolding nearestDouble_def Let_def m_def u_def e_def x_def by simp
  have "\<bar>of_int m - x / u\<bar> \<le> 1 / 2"
    unfolding m_def by (rule roundHalfEven_close)
  then have "\<bar>of_int m - x / u\<bar> * u \<le> 1 / 2 * u"
    using upos by (intro mult_right_mono) simp_all
  moreover have "\<bar>of_int m - x / u\<bar> * u = \<bar>of_int m * u - x\<bar>"
    using upos by (simp add: abs_mult_pos' [symmetric] field_simps del: abs_mult_pos')
  ultimately have err: "\<bar>of_int m * u - x\<bar> \<le> u / 2" by simp
  have "u = 2 powi e / 2 ^ 52"
    unfolding u_def by (simp add: power_int_diff)
  moreover have "2 powi e \<le> x"
    unfolding e_def x_def by (rule binaryExponent_lower [OF assms])
  ultimately have "u / 2 \<le> x / 2 ^ 53"
    by (simp add: field_simps)
  with err nd show ?thesis unfolding x_def by linarith
qed

lemma nearestDouble_error_nonneg:
  assumes "0 \<le> a" "0 < b"
  shows "\<bar>nearestDouble a b - of_int a / of_int b\<bar> \<le> (of_int a / of_int b) / 2 ^ 53"
proof (cases "a = 0")
  case True
  then show ?thesis by (simp add: nearestDouble_def)
next
  case False
  with assms have "0 < a" by simp
  then show ?thesis using assms(2) by (rule nearestDouble_error)
qed

lemma frac_gap:
  fixes A S N :: rat
  assumes "0 < N" "A * N + 1 \<le> 200 * S"
  shows "A / 200 + 1 / (200 * N) \<le> S / N"
proof -
  have "A / 200 + 1 / (200 * N) = (A * N + 1) / (200 * N)"
    using assms(1) by (simp add: field_simps)
  also have "\<dots> \<le> (200 * S) / (200 * N)"
    using assms by (intro divide_right_mono) simp_all
  also have "\<dots> = S / N" by simp
  finally show ?thesis .
qed

lemma frac_gap':
  fixes A S N :: rat
  assumes "0 < N" "200 * S + 1 \<le> A * N"
  shows "S / N + 1 / (200 * N) \<le> A / 200"
proof -
  have "S / N + 1 / (200 * N) = (200 * S + 1) / (200 * N)"
    using assms(1) by (simp add: field_simps)
  also have "\<dots> \<le> (A * N) / (200 * N)"
    using assms by (intro divide_right_mono) simp_all
  also have "\<dots> = A / 200" using assms(1) by simp
  finally show ?thesis .
qed

lemma tie_gap_upper:
  fixes s n k :: int
  assumes n: "0 < n" and gt: "(2 * k + 1) * n < 200 * s"
  shows "(of_int (2 * k + 1) / 200 :: rat) + 1 / (200 * of_int n) \<le> of_int s / of_int n"
proof -
  from gt have "(2 * k + 1) * n + 1 \<le> 200 * s" by simp
  then have "(of_int ((2 * k + 1) * n + 1) :: rat) \<le> of_int (200 * s)"
    by (simp only: of_int_le_iff)
  then have "(of_int (2 * k + 1) * of_int n + 1 :: rat) \<le> 200 * of_int s"
    by (simp only: of_int_add of_int_mult of_int_1 of_int_numeral)
  moreover have "(0::rat) < of_int n" using n by simp
  ultimately show ?thesis
    by (intro frac_gap)
qed

lemma tie_gap_lower:
  fixes s n k :: int
  assumes n: "0 < n" and lt: "200 * s < (2 * k - 1) * n"
  shows "(of_int s / of_int n :: rat) + 1 / (200 * of_int n) \<le> of_int (2 * k - 1) / 200"
proof -
  from lt have "200 * s + 1 \<le> (2 * k - 1) * n" by simp
  then have "(of_int (200 * s + 1) :: rat) \<le> of_int ((2 * k - 1) * n)"
    by (simp only: of_int_le_iff)
  then have "(200 * of_int s + 1 :: rat) \<le> of_int (2 * k - 1) * of_int n"
    by (simp only: of_int_add of_int_mult of_int_1 of_int_numeral)
  moreover have "(0::rat) < of_int n" using n by simp
  ultimately show ?thesis
    by (intro frac_gap')
qed

lemma cross_less:
  fixes A S N :: rat
  assumes "0 < N" "A / 200 < S / N"
  shows "A * N < 200 * S"
  using assms by (simp add: field_simps)

lemma cross_less':
  fixes A S N :: rat
  assumes "0 < N" "S / N < A / 200"
  shows "200 * S < A * N"
  using assms by (simp add: field_simps)

lemma quotient_error_small:
  fixes s n :: int
  assumes s: "0 < s" and n: "0 < n" and bound: "200 * s < 2 ^ 53"
  shows "(of_int s / of_int n :: rat) / 2 ^ 53 < 1 / (200 * of_int n)"
proof -
  have "(of_int (200 * s) :: rat) < of_int (2 ^ 53)"
    using bound by (simp only: of_int_less_iff)
  then have "(200 * of_int s :: rat) < 2 ^ 53" by simp
  moreover have "(0::rat) < of_int n" using n by simp
  ultimately show ?thesis
    by (simp add: field_simps)
qed

lemma rounded_quotient_hundredth:
  fixes s n :: int
  assumes s: "0 < s" and n: "0 < n" and bound: "200 * s < 2 ^ 53"
  defines "d \<equiv> nearestDouble s n"
  defines "k \<equiv> \<lfloor>d * 100 + 1 / 2\<rfloor>"
  shows "\<bar>of_int k / 100 - of_int s / of_int n\<bar> \<le> (1 / 200 :: rat)"
    and "0 < d" and "d < 10 ^ 21" and "0 \<le> k"
proof -
  define x :: rat where "x = of_int s / of_int n"
  have npos: "(0::rat) < of_int n" using n by simp
  have xpos: "0 < x" unfolding x_def using s n by simp
  have err: "\<bar>d - x\<bar> \<le> x / 2 ^ 53"
    unfolding d_def x_def by (rule nearestDouble_error [OF s n])
  have small: "x / 2 ^ 53 < 1 / (200 * of_int n)"
    unfolding x_def by (rule quotient_error_small [OF s n bound])
  have klo: "of_int k \<le> d * 100 + 1 / 2" unfolding k_def by (rule of_int_floor_le)
  have khi: "d * 100 + 1 / 2 < of_int k + 1" unfolding k_def by linarith
  have "x / 2 ^ 53 < x" using xpos by (simp add: field_simps)
  with err show dpos: "0 < d" by linarith
  have "x \<le> of_int s"
    using s n unfolding x_def by (simp add: field_simps mult_le_cancel_left1)
  moreover have "(of_int (200 * s) :: rat) < of_int (2 ^ 53)"
    using bound by (simp only: of_int_less_iff)
  ultimately have "x < 2 ^ 53" using s by simp
  with err \<open>x / 2 ^ 53 < x\<close> have "d < 2 * 2 ^ 53" by linarith
  then show "d < 10 ^ 21" by simp
  from dpos klo khi have "-1 < (of_int k :: rat)" by linarith
  then have "-1 < k" by (simp only: of_int_less_iff [symmetric, where 'a = rat] of_int_minus of_int_1)
  then show "0 \<le> k" by simp
  have upper: "x \<le> of_int (2 * k + 1) / 200"
  proof (rule ccontr)
    assume "\<not> x \<le> of_int (2 * k + 1) / 200"
    then have "of_int (2 * k + 1) / 200 < (of_int s / of_int n :: rat)"
      unfolding x_def by simp
    from cross_less [OF npos this]
    have "(of_int ((2 * k + 1) * n) :: rat) < of_int (200 * s)"
      by (simp only: of_int_mult of_int_numeral)
    then have "(2 * k + 1) * n < 200 * s" by (simp only: of_int_less_iff)
    from tie_gap_upper [OF n this]
    have "of_int (2 * k + 1) / 200 + 1 / (200 * of_int n) \<le> x"
      unfolding x_def .
    moreover have "d < of_int (2 * k + 1) / 200" using khi by simp
    ultimately show False using err small by linarith
  qed
  have lower: "of_int (2 * k - 1) / 200 \<le> x"
  proof (rule ccontr)
    assume "\<not> of_int (2 * k - 1) / 200 \<le> x"
    then have "(of_int s / of_int n :: rat) < of_int (2 * k - 1) / 200"
      unfolding x_def by simp
    from cross_less' [OF npos this]
    have "(of_int (200 * s) :: rat) < of_int ((2 * k - 1) * n)"
      by (simp only: of_int_mult of_int_numeral)
    then have "200 * s < (2 * k - 1) * n" by (simp only: of_int_less_iff)
    from tie_gap_lower [OF n this]
    have "x + 1 / (200 * of_int n) \<le> of_int (2 * k - 1) / 200"
      unfolding x_def .
    moreover have "of_int (2 * k - 1) / 200 \<le> d" using klo by simp
    ultimately show False using err small by linarith
  qed
  from upper lower have "x \<le> of_int k / 100 + 1 / 200" "of_int k / 100 - 1 / 200 \<le> x"
    by simp_all
  then have "\<bar>of_int k / 100 - x\<bar> \<le> 1 / 200"
    by linarith
  then show "\<bar>of_int k / 100 - of_int s / of_int n\<bar> \<le> (1 / 200 :: rat)"
    unfolding x_def .
qed

lemma rating_sum_bounds:
  assumes "\<forall>f \<in> set fs. 1 \<le> rating f \<and> rating f \<le> 5"
  shows "int (length fs) \<le> sum_list (map rating fs)"
    and "sum_list (map rating fs) \<le> 5 * int (length fs)"
  using assms by (induction fs) auto

lemma calculateAverageFeedbackJS_heap:
  assumes "r < length h"
  shows "\<exists>h' agg. calculateAverageFeedbackJS h (Defined r) = (h', agg)
     \<and> prefix h h' \<and> h' ! r = h ! r
     \<and> totalFeedback agg = length (h ! r)
     \<and> goodCount agg = length (filter (\<lambda>f. behavior f = ''Good'') (h ! r))
     \<and> neutralCount agg = length (filter (\<lambda>f. behavior f = ''Neutral'') (h ! r))
     \<and> badCount agg = length (filter (\<lambda>f. behavior f = ''Bad'') (h ! r))
     \<and> (h ! r = [] \<longrightarrow> agg = zeroAggregate)
     \<and> (h ! r \<noteq> [] \<longrightarrow> averageRating agg =
           parseFixed2 (nearestDouble (sum_list (map rating (h ! r))) (int (length (h ! r)))))"
  using assms
  by (simp add: calculateAverageFeedbackJS_def arrayLength_def arrayReduce_def arrayFilter_def
      zeroAggregate_def Let_def nth_append foldl_rating_sum)

lemma parseFixed2_pos:
  assumes "0 < d" "d < 10 ^ 21"
  shows "parseFixed2 d = nearestDouble \<lfloor>d * 100 + 1 / 2\<rfloor> 100"
  using assms by (simp add: parseFixed2_def)

lemma average_rounded:
  assumes ne: "fs \<noteq> []"
    and ratings: "\<forall>f \<in> set fs. 1 \<le> rating f \<and> rating f \<le> 5"
    and len: "length fs < 2 ^ 32"
  shows "\<exists>k::int.
      \<bar>of_int k / 100 - of_int (sum_list (map rating fs)) / of_nat (length fs)\<bar> \<le> (1 / 200 :: rat)
      \<and> parseFixed2 (nearestDouble (sum_list (map rating fs)) (int (length fs)))
          = nearestDouble k 100
      \<and> \<bar>nearestDouble k 100 - of_int k / 100\<bar> \<le> of_int k / 100 / 2 ^ 53"
proof -
  define s where "s = sum_list (map rating fs)"
  define n where "n = int (length fs)"
  have n: "0 < n" using ne by (simp add: n_def)
  from len have "int (length fs) < int (2 ^ 32)" by (simp only: of_nat_less_iff)
  then have "n < 2 ^ 32" unfolding n_def by simp
  from rating_sum_bounds [OF ratings] have "n \<le> s" "s \<le> 5 * n"
    unfolding s_def n_def by simp_all
  with n \<open>n < 2 ^ 32\<close> have s: "0 < s" and bound: "200 * s < 2 ^ 53"
    by simp_all
  define d where "d = nearestDouble s n"
  define k where "k = \<lfloor>d * 100 + 1 / 2\<rfloor>"
  from rounded_quotient_hundredth [OF s n bound]
  have close: "\<bar>of_int k / 100 - of_int s / of_int n\<bar> \<le> (1 / 200 :: rat)"
    and d: "0 < d" "d < 10 ^ 21" and k: "0 \<le> k"
    unfolding d_def k_def by simp_all
  have "parseFixed2 d = nearestDouble k 100"
    unfolding k_def by (rule parseFixed2_pos [OF d])
  moreover have "\<bar>nearestDouble k 100 - of_int k / 100\<bar> \<le> of_int k / 100 / 2 ^ 53"
    using nearestDouble_error_nonneg [OF k, of 100] by simp
  moreover have "(of_int n :: rat) = of_nat (length fs)"
    unfolding n_def by simp
  ultimately show ?thesis
    using close unfolding d_def s_def [symmetric] n_def [symmetric] by auto
qed

text \<open>
  Claim C7. For an array of feedback entries (ratings 1 to 5, fewer than \<open>2^32\<close>
  entries, as every array has) \<^verbatim>\<open>calculateAverageFeedback\<close> returns the record in which
  \<^verbatim>\<open>totalFeedback\<close> is the length, the three counts are the numbers of entries with
  behavior \<^verbatim>\<open>'Good'\<close>, \<^verbatim>\<open>'Neutral'\<close> and \<^verbatim>\<open>'Bad'\<close>, and \<^verbatim>\<open>averageRating\<close> is the mean rounded
  to two decimals: there is a whole number \<open>k\<close> of hundredths at distance at most 0.005
  from the mean such that \<^verbatim>\<open>averageRating\<close> is the double nearest to \<open>k / 100\<close>, the
  number that the decimal \<open>k / 100\<close> denotes. The empty array yields the all-zero record.
  The input is not mutated: the array is in the heap after the call as it was before,
  and so is every other array that was there (the heap only grows by the results of
  \<^verbatim>\<open>filter\<close>).
\<close>

theorem C7_calculateAverageFeedback:
  assumes r: "r < length h"
    and ratings: "\<forall>f \<in> set (h ! r). 1 \<le> rating f \<and> rating f \<le> 5"
    and len: "length (h ! r) < 2 ^ 32"
  shows "\<exists>h' agg.
      calculateAverageFeedbackJS h (Defined r) = (h', agg)
      \<and> prefix h h' \<and> h' ! r = h ! r
      \<and> totalFeedback agg = length (h ! r)
      \<and> goodCount agg = length (filter (\<lambda>f. behavior f = ''Good'') (h ! r))
      \<and> neutralCount agg = length (filter (\<lambda>f. behavior f = ''Neutral'') (h ! r))
      \<and> badCount agg = length (filter (\<lambda>f. behavior f = ''Bad'') (h ! r))
      \<and> (h ! r = [] \<longrightarrow>
            agg = \<lparr>averageRating = 0, totalFeedback = 0, goodCount = 0, neutralCount = 0,
                   badCount = 0\<rparr>)
      \<and> (h ! r \<noteq> [] \<longrightarrow>
            (\<exists>k::int.
               \<bar>of_int k / 100
                  - of_int (sum_list (map rating (h ! r))) / of_nat (length (h ! r))\<bar>
                 \<le> (1 / 200 :: rat)
               \<and> averageRating agg = nearestDouble k 100
               \<and> \<bar>averageRating agg - of_int k / 100\<bar> \<le> of_int k / 100 / 2 ^ 53))"
proof -
  from calculateAverageFeedbackJS_heap [OF r]
  obtain h' agg where run: "calculateAverageFeedbackJS h (Defined r) = (h', agg)"
    and heap: "prefix h h'" "h' ! r = h ! r"
    and counts: "totalFeedback agg = length (h ! r)"
      "goodCount agg = length (filter (\<lambda>f. behavior f = ''Good'') (h ! r))"
      "neutralCount agg = length (filter (\<lambda>f. behavior f = ''Neutral'') (h ! r))"
      "badCount agg = length (filter (\<lambda>f. behavior f = ''Bad'') (h ! r))"
    and empty: "h ! r = [] \<longrightarrow> agg = zeroAggregate"
    and avg: "h ! r \<noteq> [] \<longrightarrow> averageRating agg =
           parseFixed2 (nearestDouble (sum_list (map rating (h ! r))) (int (length (h ! r))))"
    by blast
  have avg': "h ! r \<noteq> [] \<longrightarrow>
            (\<exists>k::int.
               \<bar>of_int k / 100
                  - of_int (sum_list (map rating (h ! r))) / of_nat (length (h ! r))\<bar>
                 \<le> (1 / 200 :: rat)
               \<and> averageRating agg = nearestDouble k 100
               \<and> \<bar>averageRating agg - of_int k / 100\<bar> \<le> of_int k / 100 / 2 ^ 53)"
  proof
    assume ne: "h ! r \<noteq> []"
    from average_rounded [OF ne ratings len] avg ne
    show "\<exists>k::int.
               \<bar>of_int k / 100
                  - of_int (sum_list (map rating (h ! r))) / of_nat (length (h ! r))\<bar>
                 \<le> (1 / 200 :: rat)
               \<and> averageRating agg = nearestDouble k 100
               \<and> \<bar>averageRating agg - of_int k / 100\<bar> \<le> of_int k / 100 / 2 ^ 53"
      by auto
  qed
  from empty have empty': "h ! r = [] \<longrightarrow>
            agg = \<lparr>averageRating = 0, totalFeedback = 0, goodCount = 0, neutralCount = 0,
                   badCount = 0\<rparr>"
    by (simp add: zeroAggregate_def)
  from run heap counts empty' avg' show ?thesis
    by blast
qed

text \<open>
  Nineteen ratings of 5 and twenty-one of 4: the mean is 4.475, a tie between 4.47 and
  4.48. The double nearest to 179/40 lies below the tie, so \<^verbatim>\<open>toFixed(2)\<close> prints 4.47,
  and \<^verbatim>\<open>averageRating\<close> is the double that 4.47 denotes. The heap holds the input array
  in its place and the three results of \<^verbatim>\<open>filter\<close> after it.
\<close>

theorem C7_tie_witness:
  "calculateAverageFeedbackJS
     [replicate 19 \<lparr>rating = 5, behavior = ''Good''\<rparr>
      @ replicate 21 \<lparr>rating = 4, behavior = ''Neutral''\<rparr>] (Defined 0)
   = ([replicate 19 \<lparr>rating = 5, behavior = ''Good''\<rparr>
        @ replicate 21 \<lparr>rating = 4, behavior = ''Neutral''\<rparr>,
       replicate 19 \<lparr>rating = 5, behavior = ''Good''\<rparr>,
       replicate 21 \<lparr>rating = 4, behavior = ''Neutral''\<rparr>,
       []],
      \<lparr>averageRating = 5032772583586529 / 1125899906842624, totalFeedback = 40,
       goodCount = 19, neutralCount = 21, badCount = 0\<rparr>)
   \<and> (\<exists>k::int. \<bar>of_int k / 100 - 179 / 40\<bar> \<le> (1 / 200 :: rat)
        \<and> 5032772583586529 / 1125899906842624 = nearestDouble k 100)
   \<and> nearestDouble 447 100 = 5032772583586529 / 1125899906842624
   \<and> (5032772583586529 / 1125899906842624 :: rat) < 447 / 100"
proof -
  let ?fs = "replicate 19 \<lparr>rating = 5, behavior = ''Good''\<rparr>
      @ replicate 21 \<lparr>rating = 4, behavior = ''Neutral''\<rparr>"
  have ev: "calculateAverageFeedbackJS [?fs] (Defined 0)
   = ([?fs,
       replicate 19 \<lparr>rating = 5, behavior = ''Good''\<rparr>,
       replicate 21 \<lparr>rating = 4, behavior = ''Neutral''\<rparr>,
       []],
      \<lparr>averageRating = 5032772583586529 / 1125899906842624, totalFeedback = 40,
       goodCount = 19, neutralCount = 21, badCount = 0\<rparr>)"
    by code_simp
  have r: "0 < length [?fs]" by simp
  have ratings: "\<forall>f \<in> set ([?fs] ! 0). 1 \<le> rating f \<and> rating f \<le> 5"
    by (simp add: set_replicate_conv_if)
  have len: "length ([?fs] ! 0) < 2 ^ 32" by simp
  have ne: "[?fs] ! 0 \<noteq> []" by simp
  have mean: "(of_int (sum_list (map rating ([?fs] ! 0))) :: rat) / of_nat (length ([?fs] ! 0))
      = 179 / 40"
    by (simp add: sum_list_replicate)
  from C7_calculateAverageFeedback [OF r ratings len]
  obtain h' agg where run: "calculateAverageFeedbackJS [?fs] (Defined 0) = (h', agg)"
    and avg: "[?fs] ! 0 \<noteq> [] \<longrightarrow>
            (\<exists>k::int.
               \<bar>of_int k / 100
                  - of_int (sum_list (map rating ([?fs] ! 0))) / of_nat (length ([?fs] ! 0))\<bar>
                 \<le> (1 / 200 :: rat)
               \<and> averageRating agg = nearestDouble k 100
               \<and> \<bar>averageRating agg - of_int k / 100\<bar> \<le> of_int k / 100 / 2 ^ 53)"
    by blast
  from run ev have "agg = \<lparr>averageRating = 5032772583586529 / 1125899906842624,
       totalFeedback = 40, goodCount = 19, neutralCount = 21, badCount = 0\<rparr>"
    by (simp only: prod.inject)
  then have agg: "averageRating agg = 5032772583586529 / 1125899906842624"
    by (simp only: aggregate.simps)
  from avg ne obtain k :: int where
    "\<bar>of_int k / 100
        - of_int (sum_list (map rating ([?fs] ! 0))) / of_nat (length ([?fs] ! 0))\<bar>
       \<le> (1 / 200 :: rat)"
    "averageRating agg = nearestDouble k 100"
    by blast
  then have ex: "\<exists>k::int. \<bar>of_int k / 100 - 179 / 40\<bar> \<le> (1 / 200 :: rat)
        \<and> 5032772583586529 / 1125899906842624 = nearestDouble k 100"
    unfolding mean agg by blast
  have d: "nearestDouble 447 100 = 5032772583586529 / 1125899906842624"
    by code_simp
  from ev ex d show ?thesis by simp
qed

section \<open>Certificate eligibility\<close>

lemma mean_ge_iff:
  assumes "fs \<noteq> []"
  shows "meanRating fs \<ge> 899 / 200 \<longleftrightarrow>
         899 * int (length fs) \<le> 200 * sum_list (map rating fs)"
proof -
  have pos: "(0::rat) < of_nat (length fs)" using assms by simp
  have "meanRating fs \<ge> 899 / 200 \<longleftrightarrow>
        (899::rat) * of_nat (length fs) \<le> 200 * of_int (sum_list (map rating fs))"
    unfolding meanRating_sum_list using pos by (simp add: field_simps)
  also have "\<dots> \<longleftrightarrow>
      (of_int (899 * int (length fs)) :: rat) \<le> of_int (200 * sum_list (map rating fs))"
    by simp
  also have "\<dots> \<longleftrightarrow> 899 * int (length fs) \<le> 200 * sum_list (map rating fs)"
    by (rule of_int_le_iff)
  finally show ?thesis .
qed

lemma peerMentor_iff:
  "peerMentor (checkCertificateEligibility s fb) \<longleftrightarrow>
     status s = ''completed'' \<and> attendeeCount s > 0"
  by (simp add: checkCertificateEligibility_def attendeeCount_def Let_def split: nullable.splits)

lemma outstandingHelper_iff:
  "outstandingHelper (checkCertificateEligibility s (Defined fs)) \<longleftrightarrow>
     fs \<noteq> [] \<and> toFixed2 (meanRating fs) \<ge> 9 / 2
     \<and> countBehavior ''Good'' fs > countBehavior ''Bad'' fs"
  by (simp add: checkCertificateEligibility_def calculateAverageFeedback_def zeroAggregate_def
      Let_def)

text \<open>
  Claim C3, as the claim states it, fails: \<^verbatim>\<open>checkCertificateEligibility\<close> compares the
  \<^emph>\<open>rounded\<close> average of \<^verbatim>\<open>calculateAverageFeedback\<close> with 4.5. Fifty ratings of 5 and
  fifty-one ratings of 4, all \<^verbatim>\<open>'Good'\<close>, have the mean 454/101 < 4.5, which rounds to
  4.50, so \<^verbatim>\<open>outstandingHelper\<close> is true although the average rating is below 4.5.
\<close>

theorem C3_rounded_average_counterexample:
  "\<not> (outstandingHelper
        (checkCertificateEligibility
           \<lparr>title = ''t'', status = ''completed'', attendees = Defined [''u1''],
            maxSeats = None, creatorId = ''c'', creatorName = ''n''\<rparr>
           (Defined (replicate 50 \<lparr>rating = 5, behavior = ''Good''\<rparr>
                     @ replicate 51 \<lparr>rating = 4, behavior = ''Good''\<rparr>)))
      \<longleftrightarrow>
        (of_int (sum_list (map rating
            (replicate 50 \<lparr>rating = 5, behavior = ''Good''\<rparr>
             @ replicate 51 \<lparr>rating = 4, behavior = ''Good''\<rparr>))) :: rat)
          / of_nat (length
            (replicate 50 \<lparr>rating = 5, behavior = ''Good''\<rparr>
             @ replicate 51 \<lparr>rating = 4, behavior = ''Good''\<rparr>)) \<ge> 9 / 2
        \<and> length (filter (\<lambda>f. behavior f = ''Good'')
            (replicate 50 \<lparr>rating = 5, behavior = ''Good''\<rparr>
             @ replicate 51 \<lparr>rating = 4, behavior = ''Good''\<rparr>))
          > length (filter (\<lambda>f. behavior f = ''Bad'')
            (replicate 50 \<lparr>rating = 5, behavior = ''Good''\<rparr>
             @ replicate 51 \<lparr>rating = 4, behavior = ''Good''\<rparr>)))"
  by (simp add: outstandingHelper_iff countBehavior_def meanRating_sum_list sum_list_replicate
      toFixed2_def floor_eq_iff)

text \<open>
  Claim C3, amended. \<^verbatim>\<open>peerMentor\<close> holds exactly when the status is \<^verbatim>\<open>'completed'\<close> and
  there is at least one attendee. \<^verbatim>\<open>outstandingHelper\<close> holds exactly when the list is not
  empty, its average rating \<^emph>\<open>rounded to two decimals\<close> is at least 4.5 (that is, the mean
  is at least 4.495) and the \<^verbatim>\<open>'Good'\<close> entries outnumber the \<^verbatim>\<open>'Bad'\<close> ones.
\<close>

theorem C3_checkCertificateEligibility:
  "(peerMentor (checkCertificateEligibility s (Defined fs)) \<longleftrightarrow>
      status s = ''completed'' \<and> attendeeCount s > 0)
   \<and> (outstandingHelper (checkCertificateEligibility s (Defined fs)) \<longleftrightarrow>
        fs \<noteq> []
        \<and> toFixed2 (of_int (sum_list (map rating fs)) / of_nat (length fs)) \<ge> 9 / 2
        \<and> length (filter (\<lambda>f. behavior f = ''Good'') fs)
            > length (filter (\<lambda>f. behavior f = ''Bad'') fs))
   \<and> (outstandingHelper (checkCertificateEligibility s (Defined fs)) \<longleftrightarrow>
        fs \<noteq> []
        \<and> 899 * int (length fs) \<le> 200 * sum_list (map rating fs)
        \<and> length (filter (\<lambda>f. behavior f = ''Good'') fs)
            > length (filter (\<lambda>f. behavior f = ''Bad'') fs))"
proof -
  have oh: "outstandingHelper (checkCertificateEligibility s (Defined fs)) \<longleftrightarrow>
        fs \<noteq> []
        \<and> toFixed2 (of_int (sum_list (map rating fs)) / of_nat (length fs)) \<ge> 9 / 2
        \<and> length (filter (\<lambda>f. behavior f = ''Good'') fs)
            > length (filter (\<lambda>f. behavior f = ''Bad'') fs)"
    unfolding outstandingHelper_iff countBehavior_def meanRating_sum_list ..
  have "fs \<noteq> [] \<Longrightarrow>
      toFixed2 (of_int (sum_list (map rating fs)) / of_nat (length fs)) \<ge> 9 / 2
      \<longleftrightarrow> 899 * int (length fs) \<le> 200 * sum_list (map rating fs)"
    using mean_ge_iff [of fs] unfolding toFixed2_ge_450 meanRating_sum_list by blast
  with peerMentor_iff [of s "Defined fs"] oh show ?thesis by blast
qed

text \<open>
  A completed session with three attendees and the ratings 5, 5, 5, 5, 4 (average 4.8),
  three of them \<^verbatim>\<open>'Good'\<close> and none \<^verbatim>\<open>'Bad'\<close>: both eligibilities hold.
\<close>

theorem C3_both_eligible_witness:
  "peerMentor (checkCertificateEligibility
     \<lparr>title = ''t'', status = ''completed'', attendees = Defined [''u1'', ''u2'', ''u3''],
      maxSeats = None, creatorId = ''c'', creatorName = ''n''\<rparr>
     (Defined [\<lparr>rating = 5, behavior = ''Good''\<rparr>, \<lparr>rating = 5, behavior = ''Good''\<rparr>,
               \<lparr>rating = 5, behavior = ''Good''\<rparr>, \<lparr>rating = 5, behavior = ''Neutral''\<rparr>,
               \<lparr>rating = 4, behavior = ''Neutral''\<rparr>]))
   \<and> outstandingHelper (checkCertificateEligibility
     \<lparr>title = ''t'', status = ''completed'', attendees = Defined [''u1'', ''u2'', ''u3''],
      maxSeats = None, creatorId = ''c'', creatorName = ''n''\<rparr>
     (Defined [\<lparr>rating = 5, behavior = ''Good''\<rparr>, \<lparr>rating = 5, behavior = ''Good''\<rparr>,
               \<lparr>rating = 5, behavior = ''Good''\<rparr>, \<lparr>rating = 5, behavior = ''Neutral''\<rparr>,
               \<lparr>rating = 4, behavior = ''Neutral''\<rparr>]))"
  using C3_checkCertificateEligibility
    [of "\<lparr>title = ''t'', status = ''completed'', attendees = Defined [''u1'', ''u2'', ''u3''],
          maxSeats = None, creatorId = ''c'', creatorName = ''n''\<rparr>"
        "[\<lparr>rating = 5, behavior = ''Good''\<rparr>, \<lparr>rating = 5, behavior = ''Good''\<rparr>,
          \<lparr>rating = 5, behavior = ''Good''\<rparr>, \<lparr>rating = 5, behavior = ''Neutral''\<rparr>,
          \<lparr>rating = 4, behavior = ''Neutral''\<rparr>]"]
  by (simp add: attendeeCount_def toFixed2_def floor_eq_iff)

subsection \<open>The comparison with 4.5 in exact and in double arithmetic\<close>

text \<open>
  The eligibility check reads the rounded average only through its comparison with 4.5.
  On every array of ratings 1..5 the double arithmetic of the source decides that
  comparison as the exact arithmetic does, so the eligibility stated over the exact
  aggregate is the eligibility the source computes on the heap.
\<close>

lemma nearestDouble_899_200: "nearestDouble 899 200 = 5060920081257595 / 1125899906842624"
  by code_simp

lemma nearestDouble_450_100: "nearestDouble 450 100 = 9 / 2"
  by code_simp

lemma binaryExponent_unique:
  fixes x :: rat
  assumes "2 powi e \<le> x" "x < 2 powi (e + 1)" "2 powi e' \<le> x" "x < 2 powi (e' + 1)"
  shows "e = e'"
proof (rule ccontr)
  assume "e \<noteq> e'"
  then consider "e + 1 \<le> e'" | "e' + 1 \<le> e" by linarith
  then show False
  proof cases
    case 1
    then have "(2::rat) powi (e + 1) \<le> 2 powi e'"
      by (intro power_int_increasing) simp_all
    with assms show False by linarith
  next
    case 2
    then have "(2::rat) powi (e' + 1) \<le> 2 powi e"
      by (intro power_int_increasing) simp_all
    with assms show False by linarith
  qed
qed

lemma nearestDouble_ratio:
  assumes "0 < a" "0 < b" "0 < a'" "0 < b'"
    and eq: "(of_int a / of_int b :: rat) = of_int a' / of_int b'"
  shows "nearestDouble a b = nearestDouble a' b'"
proof -
  have "binaryExponent a b = binaryExponent a' b'"
    using binaryExponent_lower [OF assms(1,2)] binaryExponent_upper [OF assms(1,2)]
      binaryExponent_lower [OF assms(3,4)] binaryExponent_upper [OF assms(3,4)]
    unfolding eq by (rule binaryExponent_unique)
  then show ?thesis
    using assms by (simp add: nearestDouble_def Let_def)
qed

lemma nearestDouble_ge_450:
  assumes "450 \<le> k"
  shows "9 / 2 \<le> nearestDouble k 100"
proof (cases "k = 450")
  case True
  then show ?thesis by (simp add: nearestDouble_450_100)
next
  case False
  with assms have "451 \<le> k" by simp
  define y :: rat where "y = of_int k / 100"
  from \<open>451 \<le> k\<close> have y: "451 / 100 \<le> y" unfolding y_def by simp
  have "0 \<le> k" using assms by simp
  from nearestDouble_error_nonneg [OF this, of 100]
  have "\<bar>nearestDouble k 100 - y\<bar> \<le> y / 2 ^ 53" unfolding y_def by simp
  then have "\<bar>nearestDouble k 100 - y\<bar> \<le> y / 9007199254740992" by simp
  with y show ?thesis by linarith
qed

lemma nearestDouble_less_450:
  assumes "0 \<le> k" "k \<le> 449"
  shows "nearestDouble k 100 < 9 / 2"
proof -
  define y :: rat where "y = of_int k / 100"
  from assms(2) have y: "y \<le> 449 / 100" unfolding y_def by simp
  from nearestDouble_error_nonneg [OF assms(1), of 100]
  have "\<bar>nearestDouble k 100 - y\<bar> \<le> y / 2 ^ 53" unfolding y_def by simp
  then have "\<bar>nearestDouble k 100 - y\<bar> \<le> y / 9007199254740992" by simp
  with y show ?thesis by linarith
qed

lemma rounded_quotient_ge_450:
  fixes s n :: int
  assumes s: "0 < s" and n: "0 < n" and bound: "200 * s < 2 ^ 53"
  shows "9 / 2 \<le> nearestDouble \<lfloor>nearestDouble s n * 100 + 1 / 2\<rfloor> 100
         \<longleftrightarrow> 899 * n \<le> 200 * s"
proof -
  define x :: rat where "x = of_int s / of_int n"
  define d where "d = nearestDouble s n"
  define k where "k = \<lfloor>d * 100 + 1 / 2\<rfloor>"
  have err: "\<bar>d - x\<bar> \<le> x / 2 ^ 53"
    unfolding d_def x_def by (rule nearestDouble_error [OF s n])
  have small: "x / 2 ^ 53 < 1 / (200 * of_int n)"
    unfolding x_def by (rule quotient_error_small [OF s n bound])
  have k0: "0 \<le> k"
    using rounded_quotient_hundredth(4) [OF s n bound] unfolding k_def d_def .
  consider "899 * n < 200 * s" | "899 * n = 200 * s" | "200 * s < 899 * n"
    by linarith
  then have "9 / 2 \<le> nearestDouble k 100 \<longleftrightarrow> 899 * n \<le> 200 * s"
  proof cases
    case 1
    then have "(2 * 449 + 1) * n < 200 * s" by simp
    from tie_gap_upper [OF n this]
    have "899 / 200 + 1 / (200 * of_int n) \<le> x"
      unfolding x_def by simp
    with err small have "899 / 200 < d" by linarith
    then have "of_int 450 \<le> d * 100 + 1 / 2" by simp
    then have "450 \<le> k" unfolding k_def by (simp only: le_floor_iff)
    with 1 show ?thesis using nearestDouble_ge_450 by simp
  next
    case 2
    then have "(of_int (899 * n) :: rat) = of_int (200 * s)" by simp
    then have "(899 * of_int n :: rat) = 200 * of_int s" by simp
    then have "(of_int s / of_int n :: rat) = of_int 899 / of_int 200"
      using n by (simp add: field_simps)
    from nearestDouble_ratio [OF s n _ _ this]
    have "d = nearestDouble 899 200" unfolding d_def by simp
    then have "of_int 450 \<le> d * 100 + 1 / 2" by (simp add: nearestDouble_899_200)
    then have "450 \<le> k" unfolding k_def by (simp only: le_floor_iff)
    with 2 show ?thesis using nearestDouble_ge_450 by simp
  next
    case 3
    then have "200 * s < (2 * 450 - 1) * n" by simp
    from tie_gap_lower [OF n this]
    have "x + 1 / (200 * of_int n) \<le> 899 / 200"
      unfolding x_def by simp
    with err small have "d < 899 / 200" by linarith
    then have "d * 100 + 1 / 2 < of_int 450" by simp
    then have "k < 450" unfolding k_def by (simp only: floor_less_iff)
    then have "k \<le> 449" by simp
    from nearestDouble_less_450 [OF k0 this] 3 show ?thesis by simp
  qed
  then show ?thesis unfolding k_def d_def .
qed

lemma average_comparison_agrees:
  assumes ne: "fs \<noteq> []"
    and ratings: "\<forall>f \<in> set fs. 1 \<le> rating f \<and> rating f \<le> 5"
    and len: "length fs < 2 ^ 32"
  shows "9 / 2 \<le> parseFixed2 (nearestDouble (sum_list (map rating fs)) (int (length fs)))
         \<longleftrightarrow> 9 / 2 \<le> toFixed2 (meanRating fs)"
proof -
  define s where "s = sum_list (map rating fs)"
  define n where "n = int (length fs)"
  have n: "0 < n" using ne by (simp add: n_def)
  from len have "int (length fs) < int (2 ^ 32)" by (simp only: of_nat_less_iff)
  then have "n < 2 ^ 32" unfolding n_def by simp
  from rating_sum_bounds [OF ratings] have "n \<le> s" "s \<le> 5 * n"
    unfolding s_def n_def by simp_all
  with n \<open>n < 2 ^ 32\<close> have s: "0 < s" and bound: "200 * s < 2 ^ 53"
    by simp_all
  have d: "0 < nearestDouble s n" "nearestDouble s n < 10 ^ 21"
    using rounded_quotient_hundredth(2,3) [OF s n bound] by simp_all
  have "9 / 2 \<le> parseFixed2 (nearestDouble s n) \<longleftrightarrow> 899 * n \<le> 200 * s"
    unfolding parseFixed2_pos [OF d] by (rule rounded_quotient_ge_450 [OF s n bound])
  moreover have "9 / 2 \<le> toFixed2 (meanRating fs) \<longleftrightarrow> 899 * n \<le> 200 * s"
    unfolding toFixed2_ge_450 s_def n_def using mean_ge_iff [OF ne] by simp
  ultimately show ?thesis unfolding s_def n_def by simp
qed

lemma checkCertificateEligibility_on_heap:
  assumes r: "r < length h"
    and ratings: "\<forall>f \<in> set (h ! r). 1 \<le> rating f \<and> rating f \<le> 5"
    and len: "length (h ! r) < 2 ^ 32"
  shows "outstandingHelper (checkCertificateEligibility s (Defined (h ! r))) \<longleftrightarrow>
     9 / 2 \<le> averageRating (snd (calculateAverageFeedbackJS h (Defined r)))
     \<and> badCount (snd (calculateAverageFeedbackJS h (Defined r)))
         < goodCount (snd (calculateAverageFeedbackJS h (Defined r)))"
proof -
  from calculateAverageFeedbackJS_heap [OF r]
  obtain h' agg where run: "calculateAverageFeedbackJS h (Defined r) = (h', agg)"
    and counts:
      "goodCount agg = length (filter (\<lambda>f. behavior f = ''Good'') (h ! r))"
      "badCount agg = length (filter (\<lambda>f. behavior f = ''Bad'') (h ! r))"
    and empty: "h ! r = [] \<longrightarrow> agg = zeroAggregate"
    and avg: "h ! r \<noteq> [] \<longrightarrow> averageRating agg =
           parseFixed2 (nearestDouble (sum_list (map rating (h ! r))) (int (length (h ! r))))"
    by blast
  show ?thesis
  proof (cases "h ! r = []")
    case True
    with empty run show ?thesis
      by (simp add: outstandingHelper_iff zeroAggregate_def)
  next
    case False
    with avg average_comparison_agrees [OF False ratings len] run counts show ?thesis
      by (simp add: outstandingHelper_iff countBehavior_def)
  qed
qed

section \<open>Badges\<close>

lemma awardLoop_filter:
  "awardLoop p (Some held) bs acc =
     Inr (acc @ map name
            (filter (\<lambda>b. points b \<le> p \<and> Some (name b) \<notin> set (map nameOf held)) bs))"
  by (induction bs arbitrary: acc) (auto simp: list_ex_iff image_iff)

lemma shouldAwardBadge_filter:
  "shouldAwardBadge p (Defined held) =
     Inr (map name
            (filter (\<lambda>b. points b \<le> p \<and> Some (name b) \<notin> set (map nameOf held))
               badgeThresholds))"
  by (simp add: shouldAwardBadge_def awardLoop_filter)

lemma nameOf_Str: "Some n \<notin> set (map nameOf (map Str hs))"
  by (induction hs) simp_all

text \<open>
  A held list of names never excludes a badge: \<^verbatim>\<open>b.name\<close> of a string is undefined, so
  the comparison with the name of the table's badge fails for every entry.
\<close>

lemma shouldAwardBadge_held_names:
  "shouldAwardBadge p (Defined (map Str hs)) =
     Inr (map name (filter (\<lambda>b. points b \<le> p) badgeThresholds))"
  by (simp only: shouldAwardBadge_filter nameOf_Str simp_thms)

lemma shouldAwardBadge_ignores_strings:
  "shouldAwardBadge p (Defined (held @ map Str hs)) = shouldAwardBadge p (Defined held)"
proof -
  have "set (map nameOf (held @ map Str hs)) - {None} = set (map nameOf held) - {None}"
    by (induction hs) auto
  then have "\<And>n. Some n \<in> set (map nameOf (held @ map Str hs))
      \<longleftrightarrow> Some n \<in> set (map nameOf held)"
    by blast
  then show ?thesis
    by (simp only: shouldAwardBadge_filter)
qed

text \<open>
  The comparison the loop makes does skip a held badge when the held entry is an object
  with the property \<^verbatim>\<open>name\<close>; no part of the client holds badges in that shape.
\<close>

lemma shouldAwardBadge_skips_name_objects:
  "shouldAwardBadge p (Defined held) = Inr names \<Longrightarrow>
   shouldAwardBadge p (Defined (held @ map (\<lambda>n. Obj [''name'' \<mapsto> n]) names)) = Inr []"
  by (auto simp: shouldAwardBadge_filter filter_empty_conv image_iff comp_def)

lemma badgeThresholds_distinct: "distinct (map name badgeThresholds)"
  by (simp add: badgeThresholds_def)

lemma badgeThresholds_names:
  "b \<in> set badgeThresholds \<Longrightarrow> b' \<in> set badgeThresholds \<Longrightarrow> name b = name b' \<Longrightarrow> b = b'"
  using badgeThresholds_distinct by (auto simp: distinct_map dest: inj_onD)

text \<open>
  Claim C5, as the claim states it, fails at its own example: the names of the table start
  with an emoji, so \<^verbatim>\<open>shouldAwardBadge(5, [])\<close> is not \<^verbatim>\<open>['Beginner Helper']\<close>.
\<close>

theorem C5_plain_name_counterexample:
  "shouldAwardBadge 5 (Defined []) \<noteq> Inr [''Beginner Helper'']"
  by (simp add: shouldAwardBadge_def badgeThresholds_def)

text \<open>
  Claim C5, amended. The threshold table is: star Beginner Helper at 5, cap Peer Mentor at
  20, flame Super Helper at 50, trophy Champion Mentor at 100, each name with its emoji
  prefix. For every non-negative points total and every list of already-held badge names,
  \<^verbatim>\<open>shouldAwardBadge\<close> returns names of the table in the order of the table; every badge it
  returns has a threshold that is at most the points total; every badge of the table whose
  threshold is at most the points total and whose name is not in the held list is
  returned; with an empty held list the result is exactly the badges whose threshold is at
  most the points total.
\<close>

theorem C5_shouldAwardBadge:
  "0 \<le> p \<Longrightarrow>
   (\<exists>names.
      shouldAwardBadge p (Defined (map Str heldNames)) = Inr names
      \<and> subseq names (map name badgeThresholds)
      \<and> (\<forall>b \<in> set badgeThresholds. name b \<in> set names \<longrightarrow> points b \<le> p)
      \<and> (\<forall>b \<in> set badgeThresholds.
            points b \<le> p \<and> name b \<notin> set heldNames \<longrightarrow> name b \<in> set names)
      \<and> (heldNames = [] \<longrightarrow>
            names = map name (filter (\<lambda>b. points b \<le> p) badgeThresholds)))
   \<and> map (\<lambda>b. (name b, points b)) badgeThresholds =
       [([CHR 0xE2, CHR 0xAD, CHR 0x90] @ '' Beginner Helper'', 5),
        ([CHR 0xF0, CHR 0x9F, CHR 0x8E, CHR 0x93] @ '' Peer Mentor'', 20),
        ([CHR 0xF0, CHR 0x9F, CHR 0x94, CHR 0xA5] @ '' Super Helper'', 50),
        ([CHR 0xF0, CHR 0x9F, CHR 0x8F, CHR 0x86] @ '' Champion Mentor'', 100)]"
proof -
  define names where "names = map name (filter (\<lambda>b. points b \<le> p) badgeThresholds)"
  have r: "shouldAwardBadge p (Defined (map Str heldNames)) = Inr names"
    unfolding names_def by (rule shouldAwardBadge_held_names)
  have sub: "subseq names (map name badgeThresholds)"
    unfolding names_def by (intro subseq_map subseq_filter_left)
  have sound: "\<forall>b \<in> set badgeThresholds. name b \<in> set names \<longrightarrow> points b \<le> p"
  proof (intro ballI impI)
    fix b assume b: "b \<in> set badgeThresholds" and "name b \<in> set names"
    then obtain b' where b': "b' \<in> set badgeThresholds" "points b' \<le> p" "name b = name b'"
      unfolding names_def by auto
    with b have "b = b'" by (intro badgeThresholds_names)
    with b' show "points b \<le> p" by simp
  qed
  have complete: "\<forall>b \<in> set badgeThresholds.
      points b \<le> p \<and> name b \<notin> set heldNames \<longrightarrow> name b \<in> set names"
    unfolding names_def by auto
  have table: "map (\<lambda>b. (name b, points b)) badgeThresholds =
       [([CHR 0xE2, CHR 0xAD, CHR 0x90] @ '' Beginner Helper'', 5),
        ([CHR 0xF0, CHR 0x9F, CHR 0x8E, CHR 0x93] @ '' Peer Mentor'', 20),
        ([CHR 0xF0, CHR 0x9F, CHR 0x94, CHR 0xA5] @ '' Super Helper'', 50),
        ([CHR 0xF0, CHR 0x9F, CHR 0x8F, CHR 0x86] @ '' Champion Mentor'', 100)]"
    by (simp add: badgeThresholds_def)
  from r sub sound complete names_def table show ?thesis
    by blast
qed

text \<open>With 5 points and nothing held the result is the first name of the table.\<close>

theorem C5_examples_witness:
  "(0::int) \<le> 5
   \<and> shouldAwardBadge 5 (Defined [])
       = Inr [[CHR 0xE2, CHR 0xAD, CHR 0x90] @ '' Beginner Helper'']"
proof -
  have "(0::int) \<le> 5" by simp
  from C5_shouldAwardBadge [OF this, of "[]"]
  obtain names where
    "shouldAwardBadge 5 (Defined (map Str [])) = Inr names"
    "names = map name (filter (\<lambda>b. points b \<le> 5) badgeThresholds)"
    by blast
  then show ?thesis
    by (simp add: badgeThresholds_def)
qed

text \<open>
  Claim C6 says that a second call, with the names returned by the first call added to the
  held list, returns the empty list, and that \<^verbatim>\<open>shouldAwardBadge(5, ['Beginner Helper'])\<close>
  returns \<^verbatim>\<open>[]\<close>. The code does not do that: the first call with 5 points returns the
  star Beginner Helper name; with that name added to the held list, as a string (the way
  \<^verbatim>\<open>user.badges\<close> holds badges) or as a record with the property \<^verbatim>\<open>badgeName\<close> (the way
  \<^verbatim>\<open>badgeDB.addBadge\<close> stores them), the second call returns the same name again. So
  does the call of the claim's own example.
\<close>

theorem C6_held_badge_awarded_again:
  "shouldAwardBadge 5 (Defined [])
     = Inr [[CHR 0xE2, CHR 0xAD, CHR 0x90] @ '' Beginner Helper'']
   \<and> shouldAwardBadge 5 (Defined [Str ([CHR 0xE2, CHR 0xAD, CHR 0x90] @ '' Beginner Helper'')])
     = Inr [[CHR 0xE2, CHR 0xAD, CHR 0x90] @ '' Beginner Helper'']
   \<and> shouldAwardBadge 5
       (Defined [Obj [''badgeName'' \<mapsto> [CHR 0xE2, CHR 0xAD, CHR 0x90] @ '' Beginner Helper'']])
     = Inr [[CHR 0xE2, CHR 0xAD, CHR 0x90] @ '' Beginner Helper'']
   \<and> shouldAwardBadge 5 (Defined [Str ''Beginner Helper''])
     = Inr [[CHR 0xE2, CHR 0xAD, CHR 0x90] @ '' Beginner Helper'']"
  by (simp add: shouldAwardBadge_def badgeThresholds_def)

section \<open>Missing containers\<close>

text \<open>
  Claim C10, as the claim states it, fails: not every function of the rules engine is
  total on a missing container. \<^verbatim>\<open>shouldAwardBadge(5, null)\<close> reaches
  \<^verbatim>\<open>userBadges.some\<close> with \<^verbatim>\<open>userBadges\<close> null and throws a TypeError; the default
  parameter replaces an omitted held list only.
\<close>

theorem C10_null_held_list_counterexample:
  "shouldAwardBadge 5 Null = Inl TypeError"
  by (simp add: shouldAwardBadge_def badgeThresholds_def)

text \<open>
  Claim C10, amended. The functions of the rules engine that read a session or a feedback
  list are total on missing containers: on a session whose \<^verbatim>\<open>attendees\<close> field is absent
  or null \<^verbatim>\<open>calculateSessionPoints\<close> gives what it gives on an empty attendee list, and on
  a null or undefined feedback list \<^verbatim>\<open>calculateBonusPoints\<close> gives 0 and
  \<^verbatim>\<open>calculateAverageFeedback\<close> the all-zero aggregate (leaving the heap as it is); \<^verbatim>\<open>calculateTotalPoints\<close> and
  \<^verbatim>\<open>checkCertificateEligibility\<close>, which are built from them, treat both missing
  containers as empty. None of them can throw on these inputs: their models have no error
  result. \<^verbatim>\<open>shouldAwardBadge\<close> treats an omitted (undefined) held list as the empty list
  and returns a list of names for it.
\<close>

theorem C10_missing_containers:
  "calculateSessionPoints (s\<lparr>attendees := Undefined\<rparr>)
     = calculateSessionPoints (s\<lparr>attendees := Defined []\<rparr>)
   \<and> calculateSessionPoints (s\<lparr>attendees := Null\<rparr>)
     = calculateSessionPoints (s\<lparr>attendees := Defined []\<rparr>)
   \<and> calculateBonusPoints Undefined = 0
   \<and> calculateBonusPoints Null = 0
   \<and> calculateAverageFeedback Undefined =
       \<lparr>averageRating = 0, totalFeedback = 0, goodCount = 0, neutralCount = 0, badCount = 0\<rparr>
   \<and> calculateAverageFeedback Null =
       \<lparr>averageRating = 0, totalFeedback = 0, goodCount = 0, neutralCount = 0, badCount = 0\<rparr>
   \<and> calculateAverageFeedbackJS h Undefined =
       (h, \<lparr>averageRating = 0, totalFeedback = 0, goodCount = 0, neutralCount = 0,
            badCount = 0\<rparr>)
   \<and> calculateAverageFeedbackJS h Null =
       (h, \<lparr>averageRating = 0, totalFeedback = 0, goodCount = 0, neutralCount = 0,
            badCount = 0\<rparr>)
   \<and> calculateTotalPoints (s\<lparr>attendees := Undefined\<rparr>) Undefined
     = calculateTotalPoints (s\<lparr>attendees := Defined []\<rparr>) (Defined [])
   \<and> calculateTotalPoints (s\<lparr>attendees := Null\<rparr>) Null
     = calculateTotalPoints (s\<lparr>attendees := Defined []\<rparr>) (Defined [])
   \<and> checkCertificateEligibility (s\<lparr>attendees := Undefined\<rparr>) Undefined
     = checkCertificateEligibility (s\<lparr>attendees := Defined []\<rparr>) (Defined [])
   \<and> checkCertificateEligibility (s\<lparr>attendees := Null\<rparr>) Null
     = checkCertificateEligibility (s\<lparr>attendees := Defined []\<rparr>) (Defined [])
   \<and> shouldAwardBadge p Undefined = shouldAwardBadge p (Defined [])
   \<and> (\<exists>names. shouldAwardBadge p Undefined = Inr names)"
proof -
  have pts: "calculateSessionPoints (s\<lparr>attendees := Undefined\<rparr>)
     = calculateSessionPoints (s\<lparr>attendees := Defined []\<rparr>)
   \<and> calculateSessionPoints (s\<lparr>attendees := Null\<rparr>)
     = calculateSessionPoints (s\<lparr>attendees := Defined []\<rparr>)"
    by (simp add: calculateSessionPoints_def attendeeCount_def)
  have bonus: "calculateBonusPoints Undefined = 0 \<and> calculateBonusPoints Null = 0
     \<and> calculateBonusPoints (Defined []) = 0"
    by (simp add: calculateBonusPoints_def)
  have agg: "calculateAverageFeedback Undefined =
       \<lparr>averageRating = 0, totalFeedback = 0, goodCount = 0, neutralCount = 0, badCount = 0\<rparr>
   \<and> calculateAverageFeedback Null =
       \<lparr>averageRating = 0, totalFeedback = 0, goodCount = 0, neutralCount = 0, badCount = 0\<rparr>
   \<and> calculateAverageFeedback (Defined []) =
       \<lparr>averageRating = 0, totalFeedback = 0, goodCount = 0, neutralCount = 0, badCount = 0\<rparr>"
    by (simp add: calculateAverageFeedback_def zeroAggregate_def)
  have aggJS: "calculateAverageFeedbackJS h Undefined =
       (h, \<lparr>averageRating = 0, totalFeedback = 0, goodCount = 0, neutralCount = 0,
            badCount = 0\<rparr>)
   \<and> calculateAverageFeedbackJS h Null =
       (h, \<lparr>averageRating = 0, totalFeedback = 0, goodCount = 0, neutralCount = 0,
            badCount = 0\<rparr>)"
    by (simp add: calculateAverageFeedbackJS_def zeroAggregate_def)
  have total: "calculateTotalPoints (s\<lparr>attendees := Undefined\<rparr>) Undefined
     = calculateTotalPoints (s\<lparr>attendees := Defined []\<rparr>) (Defined [])
   \<and> calculateTotalPoints (s\<lparr>attendees := Null\<rparr>) Null
     = calculateTotalPoints (s\<lparr>attendees := Defined []\<rparr>) (Defined [])"
    using pts bonus by (simp add: calculateTotalPoints_def)
  have elig: "checkCertificateEligibility (s\<lparr>attendees := Undefined\<rparr>) Undefined
     = checkCertificateEligibility (s\<lparr>attendees := Defined []\<rparr>) (Defined [])
   \<and> checkCertificateEligibility (s\<lparr>attendees := Null\<rparr>) Null
     = checkCertificateEligibility (s\<lparr>attendees := Defined []\<rparr>) (Defined [])"
    using agg by (simp add: checkCertificateEligibility_def)
  have badge: "shouldAwardBadge p Undefined = shouldAwardBadge p (Defined [])"
    by (simp add: shouldAwardBadge_def)
  have "\<exists>names. shouldAwardBadge p (Defined []) = Inr names"
    by (simp add: shouldAwardBadge_filter)
  with badge have ex: "\<exists>names. shouldAwardBadge p Undefined = Inr names"
    by simp
  from pts bonus agg aggJS total elig badge ex show ?thesis
    by simp
qed

text \<open>A completed session without an \<^verbatim>\<open>attendees\<close> field earns the completion point only.\<close>

theorem C10_missing_attendees_witness:
  "calculateSessionPoints
     \<lparr>title = ''t'', status = ''completed'', attendees = Undefined,
      maxSeats = None, creatorId = ''c'', creatorName = ''n''\<rparr> = 1
   \<and> calculateSessionPoints
     \<lparr>title = ''t'', status = ''completed'', attendees = Null,
      maxSeats = None, creatorId = ''c'', creatorName = ''n''\<rparr> = 1
   \<and> shouldAwardBadge 5 Undefined
       = Inr [[CHR 0xE2, CHR 0xAD, CHR 0x90] @ '' Beginner Helper'']"
proof -
  have e: "calculateSessionPoints
     \<lparr>title = ''t'', status = ''completed'', attendees = Defined [],
      maxSeats = None, creatorId = ''c'', creatorName = ''n''\<rparr> = 1"
    by (simp add: calculateSessionPoints_def attendeeCount_def)
  have b: "shouldAwardBadge 5 (Defined [])
       = Inr [[CHR 0xE2, CHR 0xAD, CHR 0x90] @ '' Beginner Helper'']"
    by (simp add: shouldAwardBadge_def badgeThresholds_def)
  from e b C10_missing_containers
    [where s = "\<lparr>title = ''t'', status = ''completed'', attendees = Defined [],
          maxSeats = None, creatorId = ''c'', creatorName = ''n''\<rparr>" and p = 5
       and h = "[]"]
  show ?thesis by simp
qed

section \<open>Joining a session\<close>




section \<open>Certificates on completion\<close>

lemma certificateStep_uninitialised:
  "certificateStep st elig None = (if peerMentor elig then Inl ReferenceError else Inr [])"
  by (simp add: certificateStep_def readBinding_def)

text \<open>
  What the certificate statement would do had \<^verbatim>\<open>avgRating\<close> been initialised with the
  mean \<open>r\<close>: one certificate, \<^verbatim>\<open>'outstanding-helper'\<close> exactly when \<open>r\<close> is at least 4.5.
\<close>

lemma certificateStep_initialised:
  "peerMentor elig \<Longrightarrow>
   \<exists>es. certificateStep st elig (Some r) = Inr es \<and>
        certificatesIssued es = [if r \<ge> 9 / 2 then ''outstanding-helper'' else ''peer-mentor'']"
  by (simp add: certificateStep_def readBinding_def)

lemma certificatesIssued_append:
  "certificatesIssued (xs @ ys) = certificatesIssued xs @ certificatesIssued ys"
  by (induction xs rule: certificatesIssued.induct) simp_all

lemma certificatesIssued_badgeStep: "certificatesIssued (badgeStep st r) = []"
  by (simp add: badgeStep_def)

text \<open>
  As the handler stands, no run of it issues a certificate: when \<^verbatim>\<open>peerMentor\<close> holds the
  read of \<^verbatim>\<open>avgRating\<close> throws and the \<^verbatim>\<open>catch\<close> clause alerts the failure; when it does
  not hold the certificate statement is skipped.
\<close>

lemma handleCompleteSession_issues_nothing:
  "certificatesIssued (handleCompleteSession st sessionData createdFeedback) = []"
  by (simp add: handleCompleteSession_def tryBlock_def Let_def certificateStep_uninitialised
      certificatesIssued_append certificatesIssued_badgeStep)

lemma handleCompleteSession_fails_when_eligible:
  "peerMentor (checkCertificateEligibility sessionData
      (Defined (feedbacks st @ [createdFeedback]))) \<Longrightarrow>
   last (handleCompleteSession st sessionData createdFeedback)
     = Alert ''Failed to complete session''"
  by (simp add: handleCompleteSession_def tryBlock_def Let_def certificateStep_uninitialised)

text \<open>
  The completion form sends the creator's feedback with behavior \<^verbatim>\<open>'Good'\<close>. With the
  ratings 5, 5, 5, 5 on the page and the creator's rating 4 the run is the same, with 12
  points.
\<close>

lemma handleCompleteSession_creator_feedback:
  "handleCompleteSession
       \<lparr>sessionId = ''s1'',
        session = \<lparr>title = ''Algebra'', status = ''scheduled'',
                   attendees = Defined [''u1'', ''u2'', ''u3''],
                   maxSeats = None, creatorId = ''c'', creatorName = ''Ann''\<rparr>,
        pageAttendees = [''u1'', ''u2'', ''u3''],
        feedbacks = [\<lparr>rating = 5, behavior = ''Good''\<rparr>, \<lparr>rating = 5, behavior = ''Good''\<rparr>,
                     \<lparr>rating = 5, behavior = ''Good''\<rparr>, \<lparr>rating = 5, behavior = ''Neutral''\<rparr>]\<rparr>
       \<lparr>title = ''Algebra'', status = ''completed'',
        attendees = Defined [''u1'', ''u2'', ''u3''],
        maxSeats = None, creatorId = ''c'', creatorName = ''Ann''\<rparr>
       \<lparr>rating = 4, behavior = ''Good''\<rparr>
     = [CompleteSession ''s1'', AddPoints ''c'' 12, Alert ''Failed to complete session'']"
  by (simp add: handleCompleteSession_def tryBlock_def Let_def certificateStep_uninitialised
      peerMentor_iff attendeeCount_def countBehavior_def meanRating_sum_list
      calculateSessionPoints_def calculateBonusPoints_def)

text \<open>
  Claim C4 says that the completion flow issues an \<^verbatim>\<open>'outstanding-helper'\<close> certificate when
  both eligibilities hold and a \<^verbatim>\<open>'peer-mentor'\<close> one when only \<^verbatim>\<open>peerMentor\<close> holds. The
  code does not: a completed session with three attendees and the ratings 5, 5, 5, 5, 4
  (three \<^verbatim>\<open>'Good'\<close>, none \<^verbatim>\<open>'Bad'\<close>) has both eligibilities, and the handler completes the
  session, adds 11 points, and then fails without creating any certificate.
\<close>

theorem C4_both_eligible_no_certificate:
  "peerMentor (checkCertificateEligibility
       \<lparr>title = ''Algebra'', status = ''completed'',
        attendees = Defined [''u1'', ''u2'', ''u3''],
        maxSeats = None, creatorId = ''c'', creatorName = ''Ann''\<rparr>
       (Defined ([\<lparr>rating = 5, behavior = ''Good''\<rparr>, \<lparr>rating = 5, behavior = ''Good''\<rparr>,
                  \<lparr>rating = 5, behavior = ''Good''\<rparr>, \<lparr>rating = 5, behavior = ''Neutral''\<rparr>]
                 @ [\<lparr>rating = 4, behavior = ''Neutral''\<rparr>])))
   \<and> outstandingHelper (checkCertificateEligibility
       \<lparr>title = ''Algebra'', status = ''completed'',
        attendees = Defined [''u1'', ''u2'', ''u3''],
        maxSeats = None, creatorId = ''c'', creatorName = ''Ann''\<rparr>
       (Defined ([\<lparr>rating = 5, behavior = ''Good''\<rparr>, \<lparr>rating = 5, behavior = ''Good''\<rparr>,
                  \<lparr>rating = 5, behavior = ''Good''\<rparr>, \<lparr>rating = 5, behavior = ''Neutral''\<rparr>]
                 @ [\<lparr>rating = 4, behavior = ''Neutral''\<rparr>])))
   \<and> handleCompleteSession
       \<lparr>sessionId = ''s1'',
        session = \<lparr>title = ''Algebra'', status = ''scheduled'',
                   attendees = Defined [''u1'', ''u2'', ''u3''],
                   maxSeats = None, creatorId = ''c'', creatorName = ''Ann''\<rparr>,
        pageAttendees = [''u1'', ''u2'', ''u3''],
        feedbacks = [\<lparr>rating = 5, behavior = ''Good''\<rparr>, \<lparr>rating = 5, behavior = ''Good''\<rparr>,
                     \<lparr>rating = 5, behavior = ''Good''\<rparr>, \<lparr>rating = 5, behavior = ''Neutral''\<rparr>]\<rparr>
       \<lparr>title = ''Algebra'', status = ''completed'',
        attendees = Defined [''u1'', ''u2'', ''u3''],
        maxSeats = None, creatorId = ''c'', creatorName = ''Ann''\<rparr>
       \<lparr>rating = 4, behavior = ''Neutral''\<rparr>
     = [CompleteSession ''s1'', AddPoints ''c'' 11, Alert ''Failed to complete session'']
   \<and> certificatesIssued [CompleteSession ''s1'', AddPoints ''c'' 11,
        Alert ''Failed to complete session''] = []"
  by (simp add: handleCompleteSession_def tryBlock_def Let_def certificateStep_uninitialised
      peerMentor_iff outstandingHelper_iff attendeeCount_def countBehavior_def
      meanRating_sum_list toFixed2_def floor_eq_iff calculateSessionPoints_def
      calculateBonusPoints_def)

end
